theory Spec2Isabelle
  imports Complex_Main
begin

section \<open>Data model of the trading engine (src/backend/trading\_engine.py)\<close>

text \<open>
  A signal is a Python dict decoded from JSON, so its values are dynamically typed.
  Python floats are modelled by the rationals they denote; the result of every float
  operation is the exact result passed through the rounding function \<open>fl\<close> of the
  engine record below (\<open>fl = id\<close> is exact arithmetic).
\<close>

datatype pyval = PNone | PBool bool | PInt int | PFloat rat | PStr string

type_synonym signal = "string \<rightharpoonup> pyval"

datatype py_exception =
    TypeError | AttributeError | ValueError | ZeroDivisionError | OverflowError
  | ExchangeError string

datatype direction = Long | Short

text \<open>
  The human-readable messages of the source are format strings; each constructor stands
  for one of them and carries the values the source interpolates.
\<close>

datatype message =
    TradingDisabled
  | ExchangeNotConnected string
  | UnknownAction pyval
  | ExecutionError py_exception
  | AlreadyOpen direction
  | CloseFailed direction message
  | EntryOk direction
  | EntryFailed direction py_exception
  | BadPercent pyval
  | NoPosition direction
  | ZeroCloseQuantity rat pyval
  | ExitOk direction pyval
  | ExitFailed direction py_exception

record market =
  market_id :: string

record position =
  side :: string
  contracts :: rat

record balance =
  free :: "string \<rightharpoonup> rat"

record ticker =
  last_price :: rat

type_synonym order = string

datatype details =
    EntryDetails pyval string rat rat pyval
  | ExitDetails pyval string rat rat pyval

record result =
  success :: bool
  message :: message
  order :: "order option"
  signal :: signal
  details :: "details option"

text \<open>
  Every call the engine makes on a ccxt exchange object is recorded; the flag of an
  order call says whether the parameter \<open>reduceOnly: True\<close> was passed.
\<close>

datatype call =
    LoadMarkets
  | FetchBalance
  | FetchPositions "string list"
  | SetLeverage pyval string
  | FetchTicker string
  | CreateMarketBuyOrder string rat bool
  | CreateMarketSellOrder string rat bool

text \<open>
  The venue is outside the program. Each capability answers as a function of the calls
  made so far, so any stateful venue is covered; \<open>Inl\<close> is a raised exception.
  \<open>is_binance\<close> is the test \<open>isinstance(exchange, ccxt.binance)\<close>.
\<close>

record exchange =
  is_binance :: bool
  load_markets :: "call list \<Rightarrow> py_exception + (string \<rightharpoonup> market)"
  fetch_balance :: "call list \<Rightarrow> py_exception + balance"
  fetch_positions :: "call list \<Rightarrow> string list \<Rightarrow> py_exception + position list"
  set_leverage :: "call list \<Rightarrow> pyval \<Rightarrow> string \<Rightarrow> py_exception + unit"
  fetch_ticker :: "call list \<Rightarrow> string \<Rightarrow> py_exception + ticker"
  create_market_buy_order :: "call list \<Rightarrow> string \<Rightarrow> rat \<Rightarrow> bool \<Rightarrow> py_exception + order"
  create_market_sell_order :: "call list \<Rightarrow> string \<Rightarrow> rat \<Rightarrow> bool \<Rightarrow> py_exception + order"

text \<open>
  The engine object: its exchange registry and the two settings it reads from
  \<open>self.config["trading"]\<close>, together with the facts of the Python runtime the code
  depends on: the rounding of float results, the conversion of an \<open>int\<close> to a float
  (\<open>None\<close> where Python raises \<open>OverflowError\<close>, as for \<open>10 ** 400\<close>) and the
  built-in \<open>float()\<close> on strings (\<open>None\<close> where it raises \<open>ValueError\<close>). The
  float values \<open>inf\<close> and \<open>nan\<close> are outside the model.
\<close>

record engine =
  exchanges :: "string \<rightharpoonup> exchange"
  enable_trading :: bool
  default_leverage :: pyval
  fl :: "rat \<Rightarrow> rat"
  int_to_float :: "int \<Rightarrow> rat option"
  float_of_str :: "string \<Rightarrow> rat option"

section \<open>Python built-ins used by the engine\<close>

definition upper_char :: "char \<Rightarrow> char" where
  "upper_char c =
     (case map_of (zip ''abcdefghijklmnopqrstuvwxyz'' ''ABCDEFGHIJKLMNOPQRSTUVWXYZ'') c of
        Some u \<Rightarrow> u | None \<Rightarrow> c)"

definition lower_char :: "char \<Rightarrow> char" where
  "lower_char c =
     (case map_of (zip ''ABCDEFGHIJKLMNOPQRSTUVWXYZ'' ''abcdefghijklmnopqrstuvwxyz'') c of
        Some l \<Rightarrow> l | None \<Rightarrow> c)"

definition upper :: "string \<Rightarrow> string" where
  "upper s = map upper_char s"

definition lower :: "string \<Rightarrow> string" where
  "lower s = map lower_char s"

text \<open>\<open>s.replace(".P", "")\<close>: every occurrence is removed, scanning from the left.\<close>

fun replace_dot_P :: "string \<Rightarrow> string" where
  "replace_dot_P (a # b # cs) =
     (if a = CHR ''.'' \<and> b = CHR ''P'' then replace_dot_P cs
      else a # replace_dot_P (b # cs))"
| "replace_dot_P cs = cs"

definition endswith :: "string \<Rightarrow> string \<Rightarrow> bool" where
  "endswith s suf = (length suf \<le> length s \<and> drop (length s - length suf) s = suf)"

text \<open>\<open>sub in s\<close> on strings.\<close>

fun contains :: "string \<Rightarrow> string \<Rightarrow> bool" where
  "contains sub [] = (sub = [])"
| "contains sub (c # cs) = (take (length sub) (c # cs) = sub \<or> contains sub cs)"

text \<open>The numeric value of a Python number (\<open>bool\<close> is a subclass of \<open>int\<close>).\<close>

fun num_of :: "pyval \<Rightarrow> rat option" where
  "num_of (PInt i) = Some (of_int i)"
| "num_of (PFloat r) = Some r"
| "num_of (PBool b) = Some (if b then 1 else 0)"
| "num_of PNone = None"
| "num_of (PStr s) = None"

text \<open>The value of a Python \<open>int\<close>, \<open>None\<close> for anything else.\<close>

fun int_of :: "pyval \<Rightarrow> int option" where
  "int_of (PInt i) = Some i"
| "int_of (PBool b) = Some (if b then 1 else 0)"
| "int_of v = None"

text \<open>An \<open>int\<close> converted to a float, as \<open>float(i)\<close> and mixed arithmetic do.\<close>

definition float_of_int :: "engine \<Rightarrow> int \<Rightarrow> py_exception + rat" where
  "float_of_int eng i =
     (case int_to_float eng i of None \<Rightarrow> Inl OverflowError | Some r \<Rightarrow> Inr r)"

text \<open>A number as the float operand it becomes next to a float.\<close>

fun to_float :: "engine \<Rightarrow> pyval \<Rightarrow> py_exception + rat" where
  "to_float eng (PInt i) = float_of_int eng i"
| "to_float eng (PBool b) = Inr (if b then 1 else 0)"
| "to_float eng (PFloat r) = Inr r"
| "to_float eng v = Inl TypeError"

text \<open>The built-in \<open>float(v)\<close>.\<close>

fun py_float :: "engine \<Rightarrow> pyval \<Rightarrow> py_exception + rat" where
  "py_float eng PNone = Inl TypeError"
| "py_float eng (PBool b) = Inr (if b then 1 else 0)"
| "py_float eng (PInt i) = float_of_int eng i"
| "py_float eng (PFloat r) = Inr r"
| "py_float eng (PStr s) =
     (case float_of_str eng s of None \<Rightarrow> Inl ValueError | Some r \<Rightarrow> Inr r)"

text \<open>\<open>round(x, 2)\<close> on a float: to the nearest multiple of 1/100, ties to even.\<close>

definition round_half_even :: "rat \<Rightarrow> int" where
  "round_half_even x =
     (let f = \<lfloor>x\<rfloor>; d = x - of_int f
      in if d < 1 / 2 then f else if 1 / 2 < d then f + 1
         else if even f then f else f + 1)"

definition round2 :: "rat \<Rightarrow> rat" where
  "round2 x = of_int (round_half_even (x * 100)) / 100"

section \<open>Symbol normalisation and position lookup\<close>

text \<open>\<open>symbol.replace(".P", "").upper()\<close>\<close>

definition strip_upper :: "string \<Rightarrow> string" where
  "strip_upper s = upper (replace_dot_P s)"

text \<open>
  \<open>_normalize_symbol\<close>. The exception handler strips and upper-cases the variable
  \<open>symbol\<close> again, which by then holds the stripped ticker. On a value that is not a
  string \<open>symbol.replace\<close> raises inside the handler too, so the exception leaves the
  function.
\<close>

definition normalize_symbol ::
    "exchange \<Rightarrow> pyval \<Rightarrow> call list \<Rightarrow> (py_exception + string) \<times> call list" where
  "normalize_symbol ex symbol tr =
     (case symbol of
        PStr s \<Rightarrow>
          (let sym = strip_upper s in
           if is_binance ex then
             (case load_markets ex tr of
                Inl e \<Rightarrow> (Inr (strip_upper sym), tr @ [LoadMarkets])
              | Inr markets \<Rightarrow>
                  (case markets sym of
                     Some m \<Rightarrow> (Inr (market_id m), tr @ [LoadMarkets])
                   | None \<Rightarrow>
                       if 4 < length sym \<and> endswith sym ''USDT'' then
                         (case markets (take (length sym - 4) sym @ ''/USDT:USDT'') of
                            Some m \<Rightarrow> (Inr (market_id m), tr @ [LoadMarkets])
                          | None \<Rightarrow> (Inr sym, tr @ [LoadMarkets]))
                       else (Inr sym, tr @ [LoadMarkets])))
           else (Inr sym, tr))
      | _ \<Rightarrow> (Inl AttributeError, tr))"

text \<open>
  \<open>_get_position\<close>: the first position of the requested side, if it has contracts;
  every exception is answered by \<open>None\<close>.
\<close>

definition get_position ::
    "exchange \<Rightarrow> pyval \<Rightarrow> string \<Rightarrow> call list \<Rightarrow> position option \<times> call list" where
  "get_position ex symbol sd tr =
     (case normalize_symbol ex symbol tr of
        (Inl e, tr1) \<Rightarrow> (None, tr1)
      | (Inr normalized_symbol, tr1) \<Rightarrow>
          (case fetch_positions ex tr1 [normalized_symbol] of
             Inl e \<Rightarrow> (None, tr1 @ [FetchPositions [normalized_symbol]])
           | Inr positions \<Rightarrow>
               (case find (\<lambda>p. side p = sd) positions of
                  None \<Rightarrow> (None, tr1 @ [FetchPositions [normalized_symbol]])
                | Some p \<Rightarrow>
                    (if 0 < contracts p then Some p else None,
                     tr1 @ [FetchPositions [normalized_symbol]]))))"

section \<open>The four handlers\<close>

text \<open>
  \<open>_execute_long_entry\<close> and \<open>_execute_short_entry\<close> are the same text up to the side
  they guard, the order call, the \<open>side\<close> string and the messages; so are the two exit
  handlers. Each pair is one definition over a \<open>direction\<close>, and the four handlers of
  the source are its instances.
\<close>

fun side_name :: "direction \<Rightarrow> string" where
  "side_name Long = ''long''"
| "side_name Short = ''short''"

fun opposite :: "direction \<Rightarrow> direction" where
  "opposite Long = Short"
| "opposite Short = Long"

definition failed :: "message \<Rightarrow> signal \<Rightarrow> result" where
  "failed m sig =
     \<lparr>success = False, message = m, order = None, signal = sig, details = None\<rparr>"

definition buy ::
    "exchange \<Rightarrow> string \<Rightarrow> rat \<Rightarrow> bool \<Rightarrow> call list \<Rightarrow> (py_exception + order) \<times> call list" where
  "buy ex s q reduce_only tr =
     (create_market_buy_order ex tr s q reduce_only, tr @ [CreateMarketBuyOrder s q reduce_only])"

definition sell ::
    "exchange \<Rightarrow> string \<Rightarrow> rat \<Rightarrow> bool \<Rightarrow> call list \<Rightarrow> (py_exception + order) \<times> call list" where
  "sell ex s q reduce_only tr =
     (create_market_sell_order ex tr s q reduce_only, tr @ [CreateMarketSellOrder s q reduce_only])"

text \<open>
  The exit handlers, lines 358--504. A \<open>percent\<close> that is not a number makes the
  comparison raise, which the handler's own \<open>except\<close> turns into a failed result.
\<close>

definition execute_exit ::
    "engine \<Rightarrow> exchange \<Rightarrow> direction \<Rightarrow> pyval \<Rightarrow> signal \<Rightarrow> call list \<Rightarrow> result \<times> call list" where
  "execute_exit eng ex d symbol sig tr =
     (let percent = (case sig ''percent'' of None \<Rightarrow> PInt 100 | Some v \<Rightarrow> v) in
      case num_of percent of
        None \<Rightarrow> (failed (ExitFailed d TypeError) sig, tr)
      | Some p \<Rightarrow>
          if p \<le> 0 \<or> 100 < p then (failed (BadPercent percent) sig, tr)
          else
            (case get_position ex symbol (side_name d) tr of
               (None, tr1) \<Rightarrow>
                 (\<lparr>success = True, message = NoPosition d, order = None, signal = sig,
                   details = None\<rparr>, tr1)
             | (Some pos, tr1) \<Rightarrow>
                 (let position_size = contracts pos;
                      close_quantity = fl eng (position_size * fl eng (p / 100)) in
                  if close_quantity \<le> 0 then
                    (failed (ZeroCloseQuantity position_size percent) sig, tr1)
                  else
                    (let close_quantity' =
                           (if position_size < close_quantity then position_size
                            else close_quantity) in
                     case normalize_symbol ex symbol tr1 of
                       (Inl e, tr2) \<Rightarrow> (failed (ExitFailed d e) sig, tr2)
                     | (Inr normalized_symbol, tr2) \<Rightarrow>
                         (case (if d = Long then sell ex normalized_symbol close_quantity' True tr2
                                else buy ex normalized_symbol close_quantity' True tr2) of
                            (Inl e, tr3) \<Rightarrow> (failed (ExitFailed d e) sig, tr3)
                          | (Inr ord, tr3) \<Rightarrow>
                              (\<lparr>success = True, message = ExitOk d percent, order = Some ord,
                                signal = sig,
                                details = Some (ExitDetails symbol
                                  (if d = Long then ''sell'' else ''buy'')
                                  close_quantity' position_size percent)\<rparr>, tr3))))))"

text \<open>
  \<open>(amount_usdt * leverage) / current_price\<close>, the price being a float. The product of
  two ints is an exact int, which the division converts to a float; in any other product
  of numbers the int operand is converted and the product is a float product. A
  conversion raises \<open>OverflowError\<close> on an int beyond float range, before the price is
  looked at; a zero price raises \<open>ZeroDivisionError\<close>. An operand that is not a number
  ends in an exception before any conversion (for a \<open>str\<close> next to an \<open>int\<close>, at the
  division of the repeated string, or already at a repetition too large to build),
  reported here as \<open>TypeError\<close>.
\<close>

definition entry_quantity :: "engine \<Rightarrow> pyval \<Rightarrow> pyval \<Rightarrow> rat \<Rightarrow> py_exception + rat" where
  "entry_quantity eng amount_usdt leverage current_price =
     (case (num_of amount_usdt, num_of leverage) of
        (Some a, Some l) \<Rightarrow>
          (case (case (int_of amount_usdt, int_of leverage) of
                   (Some i, Some j) \<Rightarrow> float_of_int eng (i * j)
                 | _ \<Rightarrow>
                     (case (to_float eng amount_usdt, to_float eng leverage) of
                        (Inr x, Inr y) \<Rightarrow> Inr (fl eng (x * y))
                      | (Inl e, _) \<Rightarrow> Inl e
                      | (_, Inl e) \<Rightarrow> Inl e)) of
             Inl e \<Rightarrow> Inl e
           | Inr product \<Rightarrow>
               if current_price = 0 then Inl ZeroDivisionError
               else Inr (fl eng (product / current_price)))
      | _ \<Rightarrow> Inl TypeError)"

text \<open>
  The second half of an entry handler, lines 229--270 and 307--348: sizing defaults,
  leverage (best effort), price, quantity, market order.
\<close>

definition entry_order ::
    "engine \<Rightarrow> exchange \<Rightarrow> direction \<Rightarrow> pyval \<Rightarrow> signal \<Rightarrow> call list \<Rightarrow>
       (py_exception + result) \<times> call list" where
  "entry_order eng ex d symbol sig tr =
     (let leverage = (case sig ''leverage'' of None \<Rightarrow> default_leverage eng | Some v \<Rightarrow> v);
          amount_usdt = (case sig ''amount'' of None \<Rightarrow> PInt 100 | Some v \<Rightarrow> v) in
      case normalize_symbol ex symbol tr of
        (Inl e, tr1) \<Rightarrow> (Inl e, tr1)
      | (Inr normalized_symbol, tr1) \<Rightarrow>
          (let tr2 = (if is_binance ex then
                        (case set_leverage ex tr1 leverage normalized_symbol of
                           Inl e \<Rightarrow> tr1 @ [SetLeverage leverage normalized_symbol]
                         | Inr u \<Rightarrow> tr1 @ [SetLeverage leverage normalized_symbol])
                      else tr1) in
           case fetch_ticker ex tr2 normalized_symbol of
             Inl e \<Rightarrow> (Inl e, tr2 @ [FetchTicker normalized_symbol])
           | Inr t \<Rightarrow>
               (let current_price = last_price t;
                    tr3 = tr2 @ [FetchTicker normalized_symbol] in
                case entry_quantity eng amount_usdt leverage current_price of
                  Inl e \<Rightarrow> (Inl e, tr3)
                | Inr quantity \<Rightarrow>
                    (case (if d = Long then buy ex normalized_symbol quantity False tr3
                           else sell ex normalized_symbol quantity False tr3) of
                       (Inl e, tr4) \<Rightarrow> (Inl e, tr4)
                     | (Inr ord, tr4) \<Rightarrow>
                         (Inr \<lparr>success = True, message = EntryOk d, order = Some ord,
                               signal = sig,
                               details = Some (EntryDetails symbol
                                 (if d = Long then ''buy'' else ''sell'')
                                 quantity current_price leverage)\<rparr>, tr4)))))"

text \<open>The \<open>except\<close> clause of an entry handler.\<close>

definition entry_result ::
    "direction \<Rightarrow> signal \<Rightarrow> (py_exception + result) \<times> call list \<Rightarrow> result \<times> call list" where
  "entry_result d sig out =
     (case out of
        (Inl e, tr) \<Rightarrow> (failed (EntryFailed d e) sig, tr)
      | (Inr r, tr) \<Rightarrow> (r, tr))"

text \<open>
  The entry handlers, lines 202--356: both look the long position up first and the
  short one second; the same side blocks, the opposite side is closed with the fresh
  signal \<open>{"percent": 100}\<close>.
\<close>

definition execute_entry ::
    "engine \<Rightarrow> exchange \<Rightarrow> direction \<Rightarrow> pyval \<Rightarrow> signal \<Rightarrow> call list \<Rightarrow> result \<times> call list" where
  "execute_entry eng ex d symbol sig tr =
     (case get_position ex symbol ''long'' tr of
        (long_position, tr1) \<Rightarrow>
          (case get_position ex symbol ''short'' tr1 of
             (short_position, tr2) \<Rightarrow>
               if (if d = Long then long_position else short_position) \<noteq> None then
                 (failed (AlreadyOpen d) sig, tr2)
               else if (if d = Long then short_position else long_position) \<noteq> None then
                 (case execute_exit eng ex (opposite d) symbol [''percent'' \<mapsto> PInt 100] tr2 of
                    (close_result, tr3) \<Rightarrow>
                      if \<not> success close_result then
                        (failed (CloseFailed (opposite d) (message close_result)) sig, tr3)
                      else entry_result d sig (entry_order eng ex d symbol sig tr3))
               else entry_result d sig (entry_order eng ex d symbol sig tr2)))"

definition execute_long_entry ::
    "engine \<Rightarrow> exchange \<Rightarrow> pyval \<Rightarrow> signal \<Rightarrow> call list \<Rightarrow> result \<times> call list" where
  "execute_long_entry eng ex = execute_entry eng ex Long"

definition execute_short_entry ::
    "engine \<Rightarrow> exchange \<Rightarrow> pyval \<Rightarrow> signal \<Rightarrow> call list \<Rightarrow> result \<times> call list" where
  "execute_short_entry eng ex = execute_entry eng ex Short"

definition execute_long_exit ::
    "engine \<Rightarrow> exchange \<Rightarrow> pyval \<Rightarrow> signal \<Rightarrow> call list \<Rightarrow> result \<times> call list" where
  "execute_long_exit eng ex = execute_exit eng ex Long"

definition execute_short_exit ::
    "engine \<Rightarrow> exchange \<Rightarrow> pyval \<Rightarrow> signal \<Rightarrow> call list \<Rightarrow> result \<times> call list" where
  "execute_short_exit eng ex = execute_exit eng ex Short"

section \<open>The dispatcher\<close>

text \<open>
  The \<open>try\<close> block of lines 107--126: the value stored under \<open>amount\<close> in
  percent-of-balance mode. Every exception inside it is answered by 100.
\<close>

definition percent_amount :: "engine \<Rightarrow> exchange \<Rightarrow> signal \<Rightarrow> call list \<Rightarrow> pyval \<times> call list" where
  "percent_amount eng ex sig tr =
     (case fetch_balance ex tr of
        Inl e \<Rightarrow> PInt 100
      | Inr b \<Rightarrow>
          (case free b ''USDT'' of
             None \<Rightarrow> PInt 100
           | Some free_usdt \<Rightarrow>
               (case sig ''percent'' of
                  None \<Rightarrow> PInt 100
                | Some v \<Rightarrow>
                    (case py_float eng v of
                       Inl e \<Rightarrow> PInt 100
                     | Inr p \<Rightarrow>
                         (let calculated_amount = fl eng (free_usdt * fl eng (p / 100)) in
                          if calculated_amount < 10 then PInt 11
                          else PFloat (fl eng (round2 calculated_amount)))))),
      tr @ [FetchBalance])"

text \<open>
  \<open>"percent" in signal and "amount" not in signal and "entry" in action\<close>; the last
  test raises when \<open>action\<close> is not a string.
\<close>

definition percent_mode :: "signal \<Rightarrow> pyval \<Rightarrow> py_exception + bool" where
  "percent_mode sig action =
     (if sig ''percent'' \<noteq> None \<and> sig ''amount'' = None then
        (case action of PStr a \<Rightarrow> Inr (contains ''entry'' a) | _ \<Rightarrow> Inl TypeError)
      else Inr False)"

text \<open>
  \<open>execute_signal\<close>. The dict \<open>signal\<close> is the caller's object: the assignment
  \<open>signal['amount'] = ...\<close> changes it in place, and the \<open>signal\<close> field of every result
  is that same object, so the field shows the dict as the call leaves it.
\<close>

definition execute_signal :: "engine \<Rightarrow> signal \<Rightarrow> call list \<Rightarrow> result \<times> call list" where
  "execute_signal eng sig tr =
     (let action = (case sig ''action'' of None \<Rightarrow> PNone | Some v \<Rightarrow> v);
          symbol0 = (case sig ''symbol'' of None \<Rightarrow> PStr ''BTCUSDT'' | Some v \<Rightarrow> v) in
      case (case sig ''exchange'' of None \<Rightarrow> PStr ''binance'' | Some v \<Rightarrow> v) of
        PStr name \<Rightarrow>
          (let exchange_name = lower name in
           case (if exchange_name = ''binance'' then
                   (case symbol0 of PStr s \<Rightarrow> Inr (PStr (strip_upper s))
                    | _ \<Rightarrow> Inl AttributeError)
                 else Inr symbol0) of
             Inl e \<Rightarrow> (failed (ExecutionError e) sig, tr)
           | Inr symbol \<Rightarrow>
               if \<not> enable_trading eng then (failed TradingDisabled sig, tr)
               else
                 (case exchanges eng exchange_name of
                    None \<Rightarrow> (failed (ExchangeNotConnected exchange_name) sig, tr)
                  | Some ex \<Rightarrow>
                      (case percent_mode sig action of
                         Inl e \<Rightarrow> (failed (ExecutionError e) sig, tr)
                       | Inr pm \<Rightarrow>
                           (case (if pm then
                                    (case percent_amount eng ex sig tr of
                                       (a, tr1) \<Rightarrow> (sig(''amount'' \<mapsto> a), tr1))
                                  else (sig, tr)) of
                              (sig1, tr1) \<Rightarrow>
                                if action = PStr ''long_entry'' then
                                  execute_long_entry eng ex symbol sig1 tr1
                                else if action = PStr ''short_entry'' then
                                  execute_short_entry eng ex symbol sig1 tr1
                                else if action = PStr ''long_exit'' then
                                  execute_long_exit eng ex symbol sig1 tr1
                                else if action = PStr ''short_exit'' then
                                  execute_short_exit eng ex symbol sig1 tr1
                                else (failed (UnknownAction action) sig1, tr1)))))
      | _ \<Rightarrow> (failed (ExecutionError AttributeError) sig, tr))"

section \<open>Observing the calls made on the venue\<close>

text \<open>An order call of either side; an order call that may open a position.\<close>

fun is_order :: "call \<Rightarrow> bool" where
  "is_order (CreateMarketBuyOrder s q r) = True"
| "is_order (CreateMarketSellOrder s q r) = True"
| "is_order c = False"

fun is_entry_order :: "call \<Rightarrow> bool" where
  "is_entry_order (CreateMarketBuyOrder s q r) = (\<not> r)"
| "is_entry_order (CreateMarketSellOrder s q r) = (\<not> r)"
| "is_entry_order c = False"

text \<open>The result of a handler with its \<open>signal\<close> field replaced.\<close>

definition with_signal :: "(signal \<Rightarrow> signal) \<Rightarrow> result \<times> call list \<Rightarrow> result \<times> call list" where
  "with_signal f out = (case out of (r, tr) \<Rightarrow> (r\<lparr>signal := f (signal r)\<rparr>, tr))"

section \<open>Concrete venues and engines\<close>

text \<open>
  A venue that answers every call the same way: a market table, the open positions,
  the free USDT balance; the last price is 100 and every order is accepted.
\<close>

definition venue :: "bool \<Rightarrow> (string \<rightharpoonup> market) \<Rightarrow> position list \<Rightarrow> rat \<Rightarrow> exchange" where
  "venue bin ms ps f =
     \<lparr>is_binance = bin,
      load_markets = (\<lambda>tr. Inr ms),
      fetch_balance = (\<lambda>tr. Inr \<lparr>free = [''USDT'' \<mapsto> f]\<rparr>),
      fetch_positions = (\<lambda>tr syms. Inr ps),
      set_leverage = (\<lambda>tr l s. Inr ()),
      fetch_ticker = (\<lambda>tr s. Inr \<lparr>last_price = 100\<rparr>),
      create_market_buy_order = (\<lambda>tr s q r. Inr ''B1''),
      create_market_sell_order = (\<lambda>tr s q r. Inr ''S1'')\<rparr>"

text \<open>
  An engine with trading enabled, one exchange registered as binance, exact floats of
  unbounded range.
\<close>

definition bot :: "exchange \<Rightarrow> engine" where
  "bot ex =
     \<lparr>exchanges = [''binance'' \<mapsto> ex], enable_trading = True,
      default_leverage = PInt 10, fl = (\<lambda>x. x), int_to_float = (\<lambda>i. Some (of_int i)),
      float_of_str = (\<lambda>s. None)\<rparr>"

section \<open>Which calls each operation makes\<close>

lemma normalize_symbol_calls:
  "snd (normalize_symbol ex symbol tr) = tr \<or> snd (normalize_symbol ex symbol tr) = tr @ [LoadMarkets]"
  by (simp add: normalize_symbol_def Let_def split: pyval.splits sum.splits option.splits)

lemma normalize_symbol_no_order:
  "filter is_order (snd (normalize_symbol ex symbol tr)) = filter is_order tr"
  using normalize_symbol_calls [of ex symbol tr] by auto

lemma normalize_symbol_no_entry_order:
  "filter is_entry_order (snd (normalize_symbol ex symbol tr)) = filter is_entry_order tr"
  using normalize_symbol_calls [of ex symbol tr] by auto

lemma get_position_calls:
  "\<exists>cs. snd (get_position ex symbol sd tr) = tr @ cs \<and> filter is_order cs = [] \<and> filter is_entry_order cs = []"
proof (cases "normalize_symbol ex symbol tr")
  case (Pair r tr1)
  from normalize_symbol_calls [of ex symbol tr] Pair
  have "tr1 = tr \<or> tr1 = tr @ [LoadMarkets]" by simp
  then show ?thesis using Pair
    by (auto simp: get_position_def split: sum.splits option.splits)
qed

lemma get_position_no_order:
  "get_position ex symbol sd tr = (p, tr1) \<Longrightarrow> filter is_order tr1 = filter is_order tr"
  using get_position_calls [of ex symbol sd tr] by auto

lemma get_position_no_entry_order:
  "get_position ex symbol sd tr = (p, tr1) \<Longrightarrow> filter is_entry_order tr1 = filter is_entry_order tr"
  using get_position_calls [of ex symbol sd tr] by auto


lemma execute_exit_no_entry_order:
  "filter is_entry_order (snd (execute_exit eng ex d symbol sig tr)) = filter is_entry_order tr"
proof -
  obtain p tr1 where gp: "get_position ex symbol (side_name d) tr = (p, tr1)"
    by (cases "get_position ex symbol (side_name d) tr")
  have f1: "filter is_entry_order tr1 = filter is_entry_order tr"
    using gp by (rule get_position_no_entry_order)
  obtain r tr2 where ns: "normalize_symbol ex symbol tr1 = (r, tr2)"
    by (cases "normalize_symbol ex symbol tr1")
  have f2: "filter is_entry_order tr2 = filter is_entry_order tr"
    using normalize_symbol_no_entry_order [of ex symbol tr1] ns f1 by simp
  show ?thesis
  proof (cases "num_of (case sig ''percent'' of None \<Rightarrow> PInt 100 | Some v \<Rightarrow> v)")
    case None
    then show ?thesis by (simp add: execute_exit_def Let_def)
  next
    case (Some q)
    show ?thesis
    proof (cases p)
      case None
      with \<open>num_of _ = Some q\<close> gp f1 show ?thesis by (simp add: execute_exit_def Let_def)
    next
      case (Some pos)
      note pos = this
      show ?thesis
      proof (cases r)
        case (Inl e)
        with \<open>num_of _ = Some q\<close> pos gp ns f1 f2 show ?thesis
          by (simp add: execute_exit_def Let_def)
      next
        case (Inr s)
        with \<open>num_of _ = Some q\<close> pos gp ns f1 f2 show ?thesis
          by (simp add: execute_exit_def Let_def buy_def sell_def split: sum.split)
      qed
    qed
  qed
qed

lemma floor_rat_numeral_div: "\<lfloor>(numeral a :: rat) / numeral b\<rfloor> = numeral a div numeral b"
  using floor_divide_of_int_eq [of "numeral a" "numeral b", where ?'a = rat] by simp

lemmas eval_defs =
  execute_signal_def lower_def lower_char_def strip_upper_def upper_def upper_char_def
  percent_mode_def percent_amount_def execute_long_entry_def execute_short_entry_def
  execute_long_exit_def execute_short_exit_def execute_entry_def execute_exit_def
  get_position_def normalize_symbol_def endswith_def entry_result_def entry_order_def
  entry_quantity_def float_of_int_def buy_def sell_def failed_def Let_def venue_def bot_def

lemma entry_order_extends:
  "\<exists>cs. snd (entry_order eng ex d symbol sig tr) = tr @ cs"
proof (cases "normalize_symbol ex symbol tr")
  case (Pair r tr1)
  from normalize_symbol_calls [of ex symbol tr] Pair
  have "tr1 = tr \<or> tr1 = tr @ [LoadMarkets]" by simp
  then obtain c1 where c1: "tr1 = tr @ c1" by auto
  show ?thesis
  proof (cases r)
    case (Inl e)
    with Pair c1 show ?thesis by (simp add: entry_order_def Let_def)
  next
    case (Inr ns)
    with Pair c1 show ?thesis
      by (simp add: entry_order_def Let_def buy_def sell_def split: sum.split)
  qed
qed

lemma entry_result_snd: "snd (entry_result d sig out) = snd out"
  by (cases out) (simp add: entry_result_def split: sum.split)

lemma exit_bad_percent:
  assumes "sig ''percent'' = Some v" and "num_of v = Some p" and "p \<le> 0 \<or> 100 < p"
  shows "execute_exit eng ex d symbol sig tr = (failed (BadPercent v) sig, tr)"
  using assms by (auto simp: execute_exit_def Let_def)

lemma contains_entry_long_entry: "contains ''entry'' ''long_entry''"
  by simp

lemma contains_entry_short_entry: "contains ''entry'' ''short_entry''"
  by simp

lemmas str_defs = strip_upper_def upper_def upper_char_def endswith_def

section \<open>Same-direction guard\<close>

text \<open>
  C6. When the position lookup of an entry handler finds an open position of the
  requested direction (a long one for \<open>_execute_long_entry\<close>, which is
  \<open>execute_entry Long\<close>; a short one for \<open>_execute_short_entry\<close>), the handler returns
  the failed result "already open" for the signal, and the calls it has made on the venue
  are the two lookups only: no \<open>create_market_buy_order\<close> and no
  \<open>create_market_sell_order\<close> is among them.
\<close>

theorem entry_blocked_by_same_side:
  assumes "get_position ex symbol ''long'' tr = (long_position, tr1)"
    and "get_position ex symbol ''short'' tr1 = (short_position, tr2)"
    and "(if d = Long then long_position else short_position) \<noteq> None"
  shows "execute_entry eng ex d symbol sig tr = (failed (AlreadyOpen d) sig, tr2)
       \<and> \<not> success (fst (execute_entry eng ex d symbol sig tr))
       \<and> filter is_order (snd (execute_entry eng ex d symbol sig tr)) = filter is_order tr"
proof -
  have e: "execute_entry eng ex d symbol sig tr = (failed (AlreadyOpen d) sig, tr2)"
    using assms by (simp add: execute_entry_def)
  have "filter is_order tr2 = filter is_order tr"
    using get_position_no_order [OF assms(1)] get_position_no_order [OF assms(2)] by simp
  with e show ?thesis by (simp add: failed_def)
qed


theorem entry_blocked_by_same_side_witness:
  "get_position (venue True Map.empty [\<lparr>side = ''long'', contracts = 1\<rparr>] 1000)
       (PStr ''BTCUSDT'') ''long'' []
     = (Some \<lparr>side = ''long'', contracts = 1\<rparr>, [LoadMarkets, FetchPositions [''BTCUSDT'']])
   \<and> execute_long_entry (bot (venue True Map.empty [\<lparr>side = ''long'', contracts = 1\<rparr>] 1000))
       (venue True Map.empty [\<lparr>side = ''long'', contracts = 1\<rparr>] 1000)
       (PStr ''BTCUSDT'') [''action'' \<mapsto> PStr ''long_entry''] []
     = (failed (AlreadyOpen Long) [''action'' \<mapsto> PStr ''long_entry''],
        [LoadMarkets, FetchPositions [''BTCUSDT''], LoadMarkets, FetchPositions [''BTCUSDT'']])"
proof -
  let ?v = "venue True Map.empty [\<lparr>side = ''long'', contracts = 1\<rparr>] 1000"
  have h1: "get_position ?v (PStr ''BTCUSDT'') ''long'' []
      = (Some \<lparr>side = ''long'', contracts = 1\<rparr>, [LoadMarkets, FetchPositions [''BTCUSDT'']])"
    by (simp add: eval_defs)
  have h2: "get_position ?v (PStr ''BTCUSDT'') ''short'' [LoadMarkets, FetchPositions [''BTCUSDT'']]
      = (None, [LoadMarkets, FetchPositions [''BTCUSDT''], LoadMarkets, FetchPositions [''BTCUSDT'']])"
    by (simp add: eval_defs)
  have h3: "(if Long = Long then Some \<lparr>side = ''long'', contracts = 1\<rparr> else None) \<noteq> None"
    by simp
  from entry_blocked_by_same_side [OF h1 h2 h3, of "bot ?v" "[''action'' \<mapsto> PStr ''long_entry'']"] h1
  show ?thesis by (simp add: execute_long_entry_def)
qed

section \<open>Flip: closing the opposite position before an entry\<close>

text \<open>
  C1 as written fails when both sides are open (hedge mode): the short position is found,
  yet the long entry is rejected by the same-direction guard and no synthetic short exit
  is executed; the four calls are the two lookups of the entry handler.
\<close>

theorem entry_with_both_sides_open:
  "fst (get_position (venue True Map.empty
          [\<lparr>side = ''long'', contracts = 1\<rparr>, \<lparr>side = ''short'', contracts = 2\<rparr>] 1000)
        (PStr ''BTCUSDT'') ''short'' []) = Some \<lparr>side = ''short'', contracts = 2\<rparr>
   \<and> execute_signal
        (bot (venue True Map.empty
          [\<lparr>side = ''long'', contracts = 1\<rparr>, \<lparr>side = ''short'', contracts = 2\<rparr>] 1000))
        [''action'' \<mapsto> PStr ''long_entry'', ''amount'' \<mapsto> PInt 100] []
     = (\<lparr>success = False, message = AlreadyOpen Long, order = None,
         signal = [''action'' \<mapsto> PStr ''long_entry'', ''amount'' \<mapsto> PInt 100],
         details = None\<rparr>,
        [LoadMarkets, FetchPositions [''BTCUSDT''], LoadMarkets, FetchPositions [''BTCUSDT'']])"
  by (simp add: eval_defs)

text \<open>
  C1 (amended). When the lookups of an entry handler find no position of the requested
  direction and find one of the opposite direction, the handler executes the opposite
  exit handler exactly once, on the fresh signal \<open>{"percent": 100}\<close>, right after the
  two lookups; if that close returns \<open>success = False\<close>, the handler returns a failed
  result whose message carries the close's message, and the calls made end with those of
  the close; otherwise it goes on to the entry order from there. Up to the end of the
  close no order that may open a position has been placed, and everything the entry
  does afterwards comes after the calls of the close. (\<open>d = Long\<close> is
  \<open>_execute_long_entry\<close>, \<open>d = Short\<close> its mirror.)
\<close>

theorem opposite_position_closed_first:
  assumes "get_position ex symbol ''long'' tr = (long_position, tr1)"
    and "get_position ex symbol ''short'' tr1 = (short_position, tr2)"
    and "(if d = Long then long_position else short_position) = None"
    and "(if d = Long then short_position else long_position) \<noteq> None"
    and "execute_exit eng ex (opposite d) symbol [''percent'' \<mapsto> PInt 100] tr2 = (close_result, tr3)"
  shows "execute_entry eng ex d symbol sig tr =
           (if \<not> success close_result
            then (failed (CloseFailed (opposite d) (message close_result)) sig, tr3)
            else entry_result d sig (entry_order eng ex d symbol sig tr3))
       \<and> filter is_entry_order tr3 = filter is_entry_order tr
       \<and> (\<exists>cs. snd (execute_entry eng ex d symbol sig tr) = tr3 @ cs)"
proof -
  have e: "execute_entry eng ex d symbol sig tr =
           (if \<not> success close_result
            then (failed (CloseFailed (opposite d) (message close_result)) sig, tr3)
            else entry_result d sig (entry_order eng ex d symbol sig tr3))"
    using assms by (simp add: execute_entry_def)
  have "filter is_entry_order tr3 = filter is_entry_order tr2"
    using execute_exit_no_entry_order [of eng ex "opposite d" symbol "[''percent'' \<mapsto> PInt 100]" tr2]
      assms(5) by simp
  then have f: "filter is_entry_order tr3 = filter is_entry_order tr"
    using get_position_no_entry_order [OF assms(1)] get_position_no_entry_order [OF assms(2)]
    by simp
  have "\<exists>cs. snd (execute_entry eng ex d symbol sig tr) = tr3 @ cs"
    using e entry_order_extends [of eng ex d symbol sig tr3]
    by (auto simp: entry_result_snd)
  with e f show ?thesis by blast
qed

text \<open>A short position whose close the venue rejects, and one whose close it accepts.\<close>

theorem opposite_position_closed_first_witness:
  "execute_long_entry
     (bot ((venue True Map.empty [\<lparr>side = ''short'', contracts = 2\<rparr>] 1000)
            \<lparr>create_market_buy_order := (\<lambda>tr s q r. Inl (ExchangeError ''rejected''))\<rparr>))
     ((venue True Map.empty [\<lparr>side = ''short'', contracts = 2\<rparr>] 1000)
            \<lparr>create_market_buy_order := (\<lambda>tr s q r. Inl (ExchangeError ''rejected''))\<rparr>)
     (PStr ''BTCUSDT'') [''action'' \<mapsto> PStr ''long_entry''] []
   = (failed (CloseFailed Short (ExitFailed Short (ExchangeError ''rejected'')))
        [''action'' \<mapsto> PStr ''long_entry''],
      [LoadMarkets, FetchPositions [''BTCUSDT''], LoadMarkets, FetchPositions [''BTCUSDT''],
       LoadMarkets, FetchPositions [''BTCUSDT''], LoadMarkets,
       CreateMarketBuyOrder ''BTCUSDT'' 2 True])
   \<and> execute_long_entry
     (bot (venue True Map.empty [\<lparr>side = ''short'', contracts = 2\<rparr>] 1000))
     (venue True Map.empty [\<lparr>side = ''short'', contracts = 2\<rparr>] 1000)
     (PStr ''BTCUSDT'') [''action'' \<mapsto> PStr ''long_entry''] []
   = (\<lparr>success = True, message = EntryOk Long, order = Some ''B1'',
       signal = [''action'' \<mapsto> PStr ''long_entry''],
       details = Some (EntryDetails (PStr ''BTCUSDT'') ''buy'' 10 100 (PInt 10))\<rparr>,
      [LoadMarkets, FetchPositions [''BTCUSDT''], LoadMarkets, FetchPositions [''BTCUSDT''],
       LoadMarkets, FetchPositions [''BTCUSDT''], LoadMarkets,
       CreateMarketBuyOrder ''BTCUSDT'' 2 True,
       LoadMarkets, SetLeverage (PInt 10) ''BTCUSDT'', FetchTicker ''BTCUSDT'',
       CreateMarketBuyOrder ''BTCUSDT'' 10 False])"
proof -
  let ?w = "venue True Map.empty [\<lparr>side = ''short'', contracts = 2\<rparr>] 1000"
  let ?v = "?w\<lparr>create_market_buy_order := (\<lambda>tr s q r. Inl (ExchangeError ''rejected''))\<rparr>"
  let ?sig = "[''action'' \<mapsto> PStr ''long_entry'']"
  let ?t1 = "[LoadMarkets, FetchPositions [''BTCUSDT'']]"
  let ?t2 = "[LoadMarkets, FetchPositions [''BTCUSDT''], LoadMarkets, FetchPositions [''BTCUSDT'']]"
  let ?t3 = "?t2 @ [LoadMarkets, FetchPositions [''BTCUSDT''], LoadMarkets,
       CreateMarketBuyOrder ''BTCUSDT'' 2 True]"
  have a1: "get_position ?v (PStr ''BTCUSDT'') ''long'' [] = (None, ?t1)"
    by (simp add: eval_defs)
  have a2: "get_position ?v (PStr ''BTCUSDT'') ''short'' ?t1
      = (Some \<lparr>side = ''short'', contracts = 2\<rparr>, ?t2)"
    by (simp add: eval_defs)
  have a3: "(if Long = Long then None else Some \<lparr>side = ''short'', contracts = 2\<rparr>) = None"
    by simp
  have a4: "(if Long = Long then Some \<lparr>side = ''short'', contracts = 2\<rparr> else None) \<noteq> None"
    by simp
  have a5: "execute_exit (bot ?v) ?v (opposite Long) (PStr ''BTCUSDT'') [''percent'' \<mapsto> PInt 100] ?t2
      = (failed (ExitFailed Short (ExchangeError ''rejected'')) [''percent'' \<mapsto> PInt 100], ?t3)"
    by (simp add: eval_defs)
  note th1 = opposite_position_closed_first [where ex = "?v" and eng = "bot ?v" and d = Long
      and symbol = "PStr ''BTCUSDT''" and tr = "[]" and sig = "?sig", OF a1 a2 a3 a4 a5]
  have b1: "get_position ?w (PStr ''BTCUSDT'') ''long'' [] = (None, ?t1)"
    by (simp add: eval_defs)
  have b2: "get_position ?w (PStr ''BTCUSDT'') ''short'' ?t1
      = (Some \<lparr>side = ''short'', contracts = 2\<rparr>, ?t2)"
    by (simp add: eval_defs)
  have b5: "execute_exit (bot ?w) ?w (opposite Long) (PStr ''BTCUSDT'') [''percent'' \<mapsto> PInt 100] ?t2
      = (\<lparr>success = True, message = ExitOk Short (PInt 100), order = Some ''B1'',
          signal = [''percent'' \<mapsto> PInt 100],
          details = Some (ExitDetails (PStr ''BTCUSDT'') ''buy'' 2 2 (PInt 100))\<rparr>, ?t3)"
    by (simp add: eval_defs)
  note th2 = opposite_position_closed_first [where ex = "?w" and eng = "bot ?w" and d = Long
      and symbol = "PStr ''BTCUSDT''" and tr = "[]" and sig = "?sig", OF b1 b2 a3 a4 b5]
  have c: "entry_result Long ?sig (entry_order (bot ?w) ?w Long (PStr ''BTCUSDT'') ?sig ?t3)
     = (\<lparr>success = True, message = EntryOk Long, order = Some ''B1'',
       signal = ?sig,
       details = Some (EntryDetails (PStr ''BTCUSDT'') ''buy'' 10 100 (PInt 10))\<rparr>,
       ?t3 @ [LoadMarkets, SetLeverage (PInt 10) ''BTCUSDT'', FetchTicker ''BTCUSDT'',
       CreateMarketBuyOrder ''BTCUSDT'' 10 False])"
    by (simp add: eval_defs)
  from th1 th2 c show ?thesis
    by (simp add: execute_long_entry_def failed_def)
qed

section \<open>Exits\<close>

text \<open>
  C2 as written fails for entries: a long entry with \<open>percent = -5\<close> is not rejected;
  the balance is fetched, the amount becomes 11 and the order is placed.
\<close>

theorem entry_percent_not_validated:
  "execute_signal (bot (venue True Map.empty [] 1000))
       [''action'' \<mapsto> PStr ''long_entry'', ''percent'' \<mapsto> PInt (- 5)] []
     = (\<lparr>success = True, message = EntryOk Long, order = Some ''B1'',
         signal = [''action'' \<mapsto> PStr ''long_entry'', ''percent'' \<mapsto> PInt (- 5),
                   ''amount'' \<mapsto> PInt 11],
         details = Some (EntryDetails (PStr ''BTCUSDT'') ''buy'' (11 / 10) 100 (PInt 10))\<rparr>,
        [FetchBalance, LoadMarkets, FetchPositions [''BTCUSDT''], LoadMarkets,
         FetchPositions [''BTCUSDT''], LoadMarkets, SetLeverage (PInt 10) ''BTCUSDT'',
         FetchTicker ''BTCUSDT'', CreateMarketBuyOrder ''BTCUSDT'' (11 / 10) False])"
  by (simp add: eval_defs)

text \<open>
  C2 (amended). For every signal whose action is \<open>long_exit\<close> or \<open>short_exit\<close> and whose
  \<open>percent\<close> is a number \<open>p\<close> with \<open>p \<le> 0\<close> or \<open>p > 100\<close>, \<open>execute_signal\<close> returns a failed
  result and makes no call on any venue, and the exit handler itself returns the
  validation failure "percent must be within 1-100" before any call. (Percent-based entry
  sizing has no range check.)
\<close>

theorem exit_percent_out_of_range:
  assumes "sig ''action'' = Some (PStr a)" and "a = ''long_exit'' \<or> a = ''short_exit''"
    and "sig ''percent'' = Some v" and "num_of v = Some p" and "p \<le> 0 \<or> 100 < p"
  shows "snd (execute_signal eng sig tr) = tr
       \<and> \<not> success (fst (execute_signal eng sig tr))
       \<and> execute_exit eng ex d symbol sig tr = (failed (BadPercent v) sig, tr)"
proof -
  have x: "\<And>ex d symbol. execute_exit eng ex d symbol sig tr = (failed (BadPercent v) sig, tr)"
    using assms(3-5) by (rule exit_bad_percent)
  have pm: "percent_mode sig (PStr a) = Inr False"
    using assms(2) by (auto simp: percent_mode_def)
  have "snd (execute_signal eng sig tr) = tr \<and> \<not> success (fst (execute_signal eng sig tr))"
  proof (cases "a = ''long_exit''")
    case True
    with assms(1) pm x show ?thesis
      by (simp add: execute_signal_def Let_def failed_def execute_long_exit_def
            split: pyval.split sum.split option.split)
  next
    case False
    with assms(2) have "a = ''short_exit''" by simp
    with assms(1) pm x show ?thesis
      by (simp add: execute_signal_def Let_def failed_def execute_short_exit_def
            split: pyval.split sum.split option.split)
  qed
  with x show ?thesis by simp
qed

theorem exit_percent_out_of_range_witness:
  "execute_signal (bot (venue True Map.empty [\<lparr>side = ''long'', contracts = 1\<rparr>] 1000))
       [''action'' \<mapsto> PStr ''long_exit'', ''percent'' \<mapsto> PInt 0] []
     = (failed (BadPercent (PInt 0)) [''action'' \<mapsto> PStr ''long_exit'', ''percent'' \<mapsto> PInt 0], [])"
proof -
  let ?v = "venue True Map.empty [\<lparr>side = ''long'', contracts = 1\<rparr>] 1000"
  let ?sig = "[''action'' \<mapsto> PStr ''long_exit'', ''percent'' \<mapsto> PInt 0]"
  have h1: "?sig ''action'' = Some (PStr ''long_exit'')" by simp
  have h2: "''long_exit'' = ''long_exit'' \<or> ''long_exit'' = ''short_exit''" by simp
  have h3: "?sig ''percent'' = Some (PInt 0)" by simp
  have h4: "num_of (PInt 0) = Some 0" by simp
  have h5: "(0::rat) \<le> 0 \<or> (100::rat) < 0" by simp
  note th = exit_percent_out_of_range [where sig = "?sig" and a = "''long_exit''" and v = "PInt 0"
      and p = 0 and eng = "bot ?v" and tr = "[]" and ex = "?v" and d = Long
      and symbol = "PStr ''BTCUSDT''", OF h1 h2 h3 h4 h5]
  have "execute_signal (bot ?v) ?sig [] = execute_exit (bot ?v) ?v Long (PStr ''BTCUSDT'') ?sig []"
    by (simp add: execute_signal_def bot_def lower_def lower_char_def strip_upper_def upper_def
          upper_char_def percent_mode_def execute_long_exit_def Let_def)
  with th show ?thesis by simp
qed




text \<open>
  C4 as written fails for entries: a long entry with \<open>amount = 0\<close> computes the quantity
  0 and still calls \<open>create_market_buy_order\<close>; with a venue that accepts it the result
  is a success.
\<close>

theorem entry_quantity_not_checked:
  "execute_signal (bot (venue True Map.empty [] 1000))
       [''action'' \<mapsto> PStr ''long_entry'', ''amount'' \<mapsto> PInt 0] []
     = (\<lparr>success = True, message = EntryOk Long, order = Some ''B1'',
         signal = [''action'' \<mapsto> PStr ''long_entry'', ''amount'' \<mapsto> PInt 0],
         details = Some (EntryDetails (PStr ''BTCUSDT'') ''buy'' 0 100 (PInt 10))\<rparr>,
        [LoadMarkets, FetchPositions [''BTCUSDT''], LoadMarkets,
         FetchPositions [''BTCUSDT''], LoadMarkets, SetLeverage (PInt 10) ''BTCUSDT'',
         FetchTicker ''BTCUSDT'', CreateMarketBuyOrder ''BTCUSDT'' 0 False])"
  by (simp add: eval_defs)

text \<open>
  C4 (amended). For every exit signal with a valid percent and an open position: if the
  computed close quantity is \<open>\<le> 0\<close>, the handler returns a failed result and the only
  calls made are those of the position lookup, so no order is placed. (The entry handlers
  have no such check: they pass the computed quantity to the venue as it is.)
\<close>

theorem exit_quantity_must_be_positive:
  assumes "num_of (case sig ''percent'' of None \<Rightarrow> PInt 100 | Some v \<Rightarrow> v) = Some p"
    and "0 < p" and "p \<le> 100"
    and "get_position ex symbol (side_name d) tr = (Some pos, tr1)"
    and "fl eng (contracts pos * fl eng (p / 100)) \<le> 0"
  shows "execute_exit eng ex d symbol sig tr =
           (failed (ZeroCloseQuantity (contracts pos)
                      (case sig ''percent'' of None \<Rightarrow> PInt 100 | Some v \<Rightarrow> v)) sig, tr1)
       \<and> \<not> success (fst (execute_exit eng ex d symbol sig tr))
       \<and> filter is_order (snd (execute_exit eng ex d symbol sig tr)) = filter is_order tr"
proof -
  have e: "execute_exit eng ex d symbol sig tr =
           (failed (ZeroCloseQuantity (contracts pos)
                      (case sig ''percent'' of None \<Rightarrow> PInt 100 | Some v \<Rightarrow> v)) sig, tr1)"
    using assms by (simp add: execute_exit_def Let_def)
  have "filter is_order tr1 = filter is_order tr"
    using assms(4) by (rule get_position_no_order)
  with e show ?thesis by (simp add: failed_def)
qed

text \<open>
  With exact arithmetic the product of a positive size and a positive percent is
  positive; the witness takes floats that flush results below 1/1000 to zero.
\<close>

theorem exit_quantity_must_be_positive_witness:
  "execute_long_exit
       ((bot (venue True Map.empty [\<lparr>side = ''long'', contracts = 1 / 1000\<rparr>] 1000))
          \<lparr>fl := (\<lambda>x. if x < 1 / 1000 then 0 else x)\<rparr>)
       (venue True Map.empty [\<lparr>side = ''long'', contracts = 1 / 1000\<rparr>] 1000)
       (PStr ''BTCUSDT'') [''percent'' \<mapsto> PInt 1] []
     = (failed (ZeroCloseQuantity (1 / 1000) (PInt 1)) [''percent'' \<mapsto> PInt 1],
        [LoadMarkets, FetchPositions [''BTCUSDT'']])"
proof -
  let ?v = "venue True Map.empty [\<lparr>side = ''long'', contracts = 1 / 1000\<rparr>] 1000"
  let ?e = "(bot ?v)\<lparr>fl := (\<lambda>x. if x < 1 / 1000 then 0 else x)\<rparr>"
  let ?sig = "[''percent'' \<mapsto> PInt 1]"
  let ?pos = "\<lparr>side = ''long'', contracts = 1 / 1000\<rparr>"
  have h1: "num_of (case ?sig ''percent'' of None \<Rightarrow> PInt 100 | Some v \<Rightarrow> v) = Some 1"
    by simp
  have h2: "(0::rat) < 1" and h3: "(1::rat) \<le> 100" by simp_all
  have h4: "get_position ?v (PStr ''BTCUSDT'') (side_name Long) []
      = (Some ?pos, [LoadMarkets, FetchPositions [''BTCUSDT'']])"
    by (simp add: eval_defs)
  have h5: "fl ?e (contracts ?pos * fl ?e (1 / 100)) \<le> 0"
    by (simp add: bot_def)
  note th = exit_quantity_must_be_positive [where sig = "?sig" and p = 1 and ex = "?v"
      and d = Long and symbol = "PStr ''BTCUSDT''" and tr = "[]" and eng = "?e" and pos = "?pos"]
  from th [OF h1 h2 h3 h4 h5]
  show ?thesis by (simp add: execute_long_exit_def)
qed

text \<open>
  C5. For every exit signal with percent \<open>p\<close> in (0, 100] acting on an open position of
  reported size \<open>S\<close>, whatever the rounding \<open>fl\<close> of the float operations: the order
  submitted carries the computed \<open>S * (p / 100)\<close>, replaced by \<open>S\<close> when it exceeds \<open>S\<close>;
  so the quantity is never greater than \<open>S\<close>, and it is exactly \<open>S * (p / 100)\<close> whenever
  the float computation is exact.
\<close>

theorem close_quantity_clamped:
  assumes "num_of (case sig ''percent'' of None \<Rightarrow> PInt 100 | Some v \<Rightarrow> v) = Some p"
    and "0 < p" and "p \<le> 100"
    and "get_position ex symbol (side_name d) tr = (Some pos, tr1)"
    and "0 < fl eng (contracts pos * fl eng (p / 100))"
    and "normalize_symbol ex symbol tr1 = (Inr ns, tr2)"
  shows "\<exists>q. snd (execute_exit eng ex d symbol sig tr) =
           tr2 @ [if d = Long then CreateMarketSellOrder ns q True
                  else CreateMarketBuyOrder ns q True]
       \<and> q = (if contracts pos < fl eng (contracts pos * fl eng (p / 100)) then contracts pos
              else fl eng (contracts pos * fl eng (p / 100)))
       \<and> q \<le> contracts pos
       \<and> (fl eng (contracts pos * fl eng (p / 100)) = contracts pos * (p / 100)
            \<longrightarrow> q = contracts pos * (p / 100))"
proof -
  let ?S = "contracts pos"
  let ?c = "fl eng (?S * fl eng (p / 100))"
  let ?q = "if ?S < ?c then ?S else ?c"
  have t: "snd (execute_exit eng ex d symbol sig tr) =
           tr2 @ [if d = Long then CreateMarketSellOrder ns ?q True
                  else CreateMarketBuyOrder ns ?q True]"
    using assms by (simp add: execute_exit_def Let_def buy_def sell_def split: sum.split)
  have le: "?q \<le> ?S" by simp
  have S0: "0 < ?S"
    using assms(4) by (auto simp: get_position_def split: prod.splits sum.splits option.splits if_splits)
  have "?S * (p / 100) \<le> ?S"
    using S0 assms(2,3) by (simp add: mult_le_cancel_left1)
  then have ex: "?c = ?S * (p / 100) \<longrightarrow> ?q = ?S * (p / 100)" by simp
  from t le ex show ?thesis by blast
qed

theorem close_quantity_clamped_witness:
  "snd (execute_short_exit (bot (venue True Map.empty [\<lparr>side = ''short'', contracts = 8\<rparr>] 1000))
       (venue True Map.empty [\<lparr>side = ''short'', contracts = 8\<rparr>] 1000)
       (PStr ''BTCUSDT'') [''percent'' \<mapsto> PInt 25] [])
     = [LoadMarkets, FetchPositions [''BTCUSDT''], LoadMarkets,
        CreateMarketBuyOrder ''BTCUSDT'' 2 True]"
proof -
  let ?v = "venue True Map.empty [\<lparr>side = ''short'', contracts = 8\<rparr>] 1000"
  let ?sig = "[''percent'' \<mapsto> PInt 25]"
  let ?pos = "\<lparr>side = ''short'', contracts = 8\<rparr>"
  have h1: "num_of (case ?sig ''percent'' of None \<Rightarrow> PInt 100 | Some v \<Rightarrow> v) = Some 25"
    by simp
  have h2: "(0::rat) < 25" and h3: "(25::rat) \<le> 100" by simp_all
  have h4: "get_position ?v (PStr ''BTCUSDT'') (side_name Short) []
      = (Some ?pos, [LoadMarkets, FetchPositions [''BTCUSDT'']])"
    by (simp add: eval_defs)
  have h5: "0 < fl (bot ?v) (contracts ?pos * fl (bot ?v) (25 / 100))"
    by (simp add: bot_def)
  have h6: "normalize_symbol ?v (PStr ''BTCUSDT'') [LoadMarkets, FetchPositions [''BTCUSDT'']]
      = (Inr ''BTCUSDT'', [LoadMarkets, FetchPositions [''BTCUSDT''], LoadMarkets])"
    by (simp add: eval_defs)
  note th = close_quantity_clamped [where sig = "?sig" and p = 25 and ex = "?v"
      and d = Short and symbol = "PStr ''BTCUSDT''" and tr = "[]" and eng = "bot ?v" and pos = "?pos"]
  from th [OF h1 h2 h3 h4 h5 h6]
  show ?thesis by (simp add: execute_short_exit_def bot_def)
qed

section \<open>Percent-of-balance sizing\<close>

lemma py_float_fails:
  "(\<exists>e. py_float eng w = Inl e) \<longleftrightarrow>
     (w = PNone \<or> (\<exists>s. w = PStr s \<and> float_of_str eng s = None)
      \<or> (\<exists>i. w = PInt i \<and> int_to_float eng i = None))"
  by (cases w) (auto simp: float_of_int_def split: option.splits)

text \<open>
  C3 as written fails in two ways. Where the product has more than two decimals the
  amount is rounded: with free balance 123.456 and \<open>percent = 50\<close> the amount stored is
  61.73 (\<open>round(..., 2)\<close>), not \<open>123.456 * (50 / 100) = 61.728\<close>. And where \<open>percent\<close>
  cannot be converted to a float no product is computed: with \<open>percent\<close> null the amount
  is 100, although the balance was fetched and holds 1000 USDT.
\<close>

theorem percent_amount_is_rounded:
  "signal (fst (execute_signal (bot (venue True Map.empty [] (123456 / 1000)))
       [''action'' \<mapsto> PStr ''long_entry'', ''percent'' \<mapsto> PInt 50] [])) ''amount''
     = Some (PFloat (6173 / 100))
   \<and> (6173 / 100 :: rat) \<noteq> (123456 / 1000) * (50 / 100)
   \<and> signal (fst (execute_signal (bot (venue True Map.empty [] 1000))
       [''action'' \<mapsto> PStr ''long_entry'', ''percent'' \<mapsto> PNone] [])) ''amount''
     = Some (PInt 100)"
  by (simp add: eval_defs round2_def round_half_even_def floor_rat_numeral_div)

text \<open>
  C3 (amended). For every entry signal with \<open>percent\<close> present and \<open>amount\<close> absent that
  reaches the sizing step (trading enabled, exchange connected), the engine fetches the
  balance once. When the fetch succeeds, USDT is among the free balances and
  \<open>float(percent)\<close> succeeds, it computes \<open>c = free USDT * (float(percent) / 100)\<close>; the
  amount is 11 if \<open>c < 10\<close> and otherwise \<open>c\<close> rounded to two decimals. When the
  balance fetch fails, or USDT is absent from the free balances, or \<open>percent\<close> cannot be
  converted to a float (null, a string \<open>float()\<close> rejects, an int beyond float range),
  the amount is 100. In every case the signal proceeds to its entry handler with that
  amount stored under \<open>amount\<close>.
\<close>

theorem percent_of_balance_amount:
  "(fetch_balance ex tr = Inr b \<and> free b ''USDT'' = Some f \<and> sig ''percent'' = Some v
      \<and> py_float eng v = Inr p \<longrightarrow>
      fst (percent_amount eng ex sig tr) =
        (if fl eng (f * fl eng (p / 100)) < 10 then PInt 11
         else PFloat (fl eng (round2 (fl eng (f * fl eng (p / 100)))))))
   \<and> ((\<exists>e. fetch_balance ex tr = Inl e)
        \<or> (\<exists>b'. fetch_balance ex tr = Inr b' \<and> free b' ''USDT'' = None)
        \<or> (\<exists>w. sig ''percent'' = Some w
              \<and> (w = PNone \<or> (\<exists>s. w = PStr s \<and> float_of_str eng s = None)
                  \<or> (\<exists>i. w = PInt i \<and> int_to_float eng i = None))) \<longrightarrow>
      fst (percent_amount eng ex sig tr) = PInt 100)
   \<and> snd (percent_amount eng ex sig tr) = tr @ [FetchBalance]
   \<and> (enable_trading eng
        \<and> (case sig ''exchange'' of None \<Rightarrow> PStr ''binance'' | Some x \<Rightarrow> x) = PStr name
        \<and> exchanges eng (lower name) = Some ex
        \<and> (case sig ''symbol'' of None \<Rightarrow> PStr ''BTCUSDT'' | Some x \<Rightarrow> x) = PStr s
        \<and> sig ''percent'' \<noteq> None \<and> sig ''amount'' = None
        \<and> sig ''action'' = Some (PStr a) \<and> (a = ''long_entry'' \<or> a = ''short_entry'') \<longrightarrow>
      execute_signal eng sig tr =
        execute_entry eng ex (if a = ''long_entry'' then Long else Short)
          (PStr (if lower name = ''binance'' then strip_upper s else s))
          (sig(''amount'' \<mapsto> fst (percent_amount eng ex sig tr))) (tr @ [FetchBalance]))"
proof -
  have a: "fetch_balance ex tr = Inr b \<and> free b ''USDT'' = Some f \<and> sig ''percent'' = Some v
      \<and> py_float eng v = Inr p \<longrightarrow>
      fst (percent_amount eng ex sig tr) =
        (if fl eng (f * fl eng (p / 100)) < 10 then PInt 11
         else PFloat (fl eng (round2 (fl eng (f * fl eng (p / 100))))))"
    by (simp add: percent_amount_def Let_def)
  have b1: "(\<exists>e. fetch_balance ex tr = Inl e)
        \<or> (\<exists>b'. fetch_balance ex tr = Inr b' \<and> free b' ''USDT'' = None) \<longrightarrow>
      fst (percent_amount eng ex sig tr) = PInt 100"
    by (auto simp: percent_amount_def)
  have b2: "\<And>w e. sig ''percent'' = Some w \<Longrightarrow> py_float eng w = Inl e \<Longrightarrow>
      fst (percent_amount eng ex sig tr) = PInt 100"
    by (simp add: percent_amount_def split: sum.split option.split)
  have b: "(\<exists>e. fetch_balance ex tr = Inl e)
        \<or> (\<exists>b'. fetch_balance ex tr = Inr b' \<and> free b' ''USDT'' = None)
        \<or> (\<exists>w. sig ''percent'' = Some w
              \<and> (w = PNone \<or> (\<exists>s. w = PStr s \<and> float_of_str eng s = None)
                  \<or> (\<exists>i. w = PInt i \<and> int_to_float eng i = None))) \<longrightarrow>
      fst (percent_amount eng ex sig tr) = PInt 100"
    using b1 b2 py_float_fails [of eng] by blast
  have c: "snd (percent_amount eng ex sig tr) = tr @ [FetchBalance]"
    by (simp add: percent_amount_def)
  have d: "enable_trading eng
        \<and> (case sig ''exchange'' of None \<Rightarrow> PStr ''binance'' | Some x \<Rightarrow> x) = PStr name
        \<and> exchanges eng (lower name) = Some ex
        \<and> (case sig ''symbol'' of None \<Rightarrow> PStr ''BTCUSDT'' | Some x \<Rightarrow> x) = PStr s
        \<and> sig ''percent'' \<noteq> None \<and> sig ''amount'' = None
        \<and> sig ''action'' = Some (PStr a) \<and> (a = ''long_entry'' \<or> a = ''short_entry'') \<longrightarrow>
      execute_signal eng sig tr =
        execute_entry eng ex (if a = ''long_entry'' then Long else Short)
          (PStr (if lower name = ''binance'' then strip_upper s else s))
          (sig(''amount'' \<mapsto> fst (percent_amount eng ex sig tr))) (tr @ [FetchBalance])"
  proof (intro impI, elim conjE)
    assume h: "enable_trading eng"
      "(case sig ''exchange'' of None \<Rightarrow> PStr ''binance'' | Some x \<Rightarrow> x) = PStr name"
      "exchanges eng (lower name) = Some ex"
      "(case sig ''symbol'' of None \<Rightarrow> PStr ''BTCUSDT'' | Some x \<Rightarrow> x) = PStr s"
      "sig ''percent'' \<noteq> None" "sig ''amount'' = None"
      "sig ''action'' = Some (PStr a)" "a = ''long_entry'' \<or> a = ''short_entry''"
    have pm: "percent_mode sig (PStr a) = Inr True"
      using h(5,6,8) by (auto simp: percent_mode_def)
    have ex': "lower name = ''binance'' \<longrightarrow> exchanges eng ''binance'' = Some ex"
      using h(3) by auto
    obtain am t where pa: "percent_amount eng ex sig tr = (am, t)"
      by (cases "percent_amount eng ex sig tr")
    with c have t: "t = tr @ [FetchBalance]" by simp
    show "execute_signal eng sig tr =
        execute_entry eng ex (if a = ''long_entry'' then Long else Short)
          (PStr (if lower name = ''binance'' then strip_upper s else s))
          (sig(''amount'' \<mapsto> fst (percent_amount eng ex sig tr))) (tr @ [FetchBalance])"
    proof (cases "a = ''long_entry''")
      case True
      with h pm pa t ex' show ?thesis
        by (simp add: execute_signal_def Let_def execute_long_entry_def)
    next
      case False
      with h(8) have "a = ''short_entry''" by simp
      with h pm pa t ex' show ?thesis
        by (simp add: execute_signal_def Let_def execute_short_entry_def)
    qed
  qed
  from a b c d show ?thesis by blast
qed

text \<open>
  The examples of the claim, with exact floats: free balance 1000 and \<open>percent = 5\<close>
  give 50, free balance 100 and \<open>percent = 5\<close> give 11. The fallbacks: \<open>percent = "abc"\<close>
  gives 100; so does \<open>percent = 10 ** 400\<close> where ints from \<open>2 ** 1024\<close> on do not
  convert; and with a failing balance fetch the entry is placed with amount 100
  (quantity \<open>100 * 10 / 100\<close>).
\<close>

theorem percent_of_balance_amount_witness:
  "fst (percent_amount (bot (venue True Map.empty [] 1000)) (venue True Map.empty [] 1000)
        [''action'' \<mapsto> PStr ''long_entry'', ''percent'' \<mapsto> PInt 5] []) = PFloat 50
   \<and> fst (percent_amount (bot (venue True Map.empty [] 100)) (venue True Map.empty [] 100)
        [''action'' \<mapsto> PStr ''long_entry'', ''percent'' \<mapsto> PInt 5] []) = PInt 11
   \<and> fst (percent_amount (bot (venue True Map.empty [] 1000)) (venue True Map.empty [] 1000)
        [''action'' \<mapsto> PStr ''long_entry'', ''percent'' \<mapsto> PStr ''abc''] []) = PInt 100
   \<and> fst (percent_amount
          ((bot (venue True Map.empty [] 1000))
             \<lparr>int_to_float := (\<lambda>i. if \<bar>i\<bar> < 2 ^ 1024 then Some (of_int i) else None)\<rparr>)
          (venue True Map.empty [] 1000)
          [''action'' \<mapsto> PStr ''long_entry'', ''percent'' \<mapsto> PInt (10 ^ 400)] []) = PInt 100
   \<and> execute_signal
        (bot ((venue True Map.empty [] 1000)
               \<lparr>fetch_balance := (\<lambda>tr. Inl (ExchangeError ''timeout''))\<rparr>))
        [''action'' \<mapsto> PStr ''long_entry'', ''percent'' \<mapsto> PInt 5] []
     = (\<lparr>success = True, message = EntryOk Long, order = Some ''B1'',
         signal = [''action'' \<mapsto> PStr ''long_entry'', ''percent'' \<mapsto> PInt 5,
                   ''amount'' \<mapsto> PInt 100],
         details = Some (EntryDetails (PStr ''BTCUSDT'') ''buy'' 10 100 (PInt 10))\<rparr>,
        [FetchBalance, LoadMarkets, FetchPositions [''BTCUSDT''], LoadMarkets,
         FetchPositions [''BTCUSDT''], LoadMarkets, SetLeverage (PInt 10) ''BTCUSDT'',
         FetchTicker ''BTCUSDT'', CreateMarketBuyOrder ''BTCUSDT'' 10 False])"
proof -
  let ?sig = "[''action'' \<mapsto> PStr ''long_entry'', ''percent'' \<mapsto> PInt 5]"
  let ?sigs = "[''action'' \<mapsto> PStr ''long_entry'', ''percent'' \<mapsto> PStr ''abc'']"
  let ?sigb = "[''action'' \<mapsto> PStr ''long_entry'', ''percent'' \<mapsto> PInt (10 ^ 400)]"
  let ?a = "venue True Map.empty [] 1000"
  let ?b = "venue True Map.empty [] 100"
  let ?c = "?a\<lparr>fetch_balance := (\<lambda>tr. Inl (ExchangeError ''timeout''))\<rparr>"
  let ?e = "(bot ?a)\<lparr>int_to_float := (\<lambda>i. if \<bar>i\<bar> < 2 ^ 1024 then Some (of_int i) else None)\<rparr>"
  have a: "fetch_balance ?a [] = Inr \<lparr>free = [''USDT'' \<mapsto> 1000]\<rparr>
      \<and> free \<lparr>free = [''USDT'' \<mapsto> 1000]\<rparr> ''USDT'' = Some 1000
      \<and> ?sig ''percent'' = Some (PInt 5) \<and> py_float (bot ?a) (PInt 5) = Inr 5"
    by (simp add: venue_def bot_def float_of_int_def)
  note tha = percent_of_balance_amount [where ex = "?a" and eng = "bot ?a" and sig = "?sig"
      and tr = "[]" and b = "\<lparr>free = [''USDT'' \<mapsto> 1000]\<rparr>" and f = 1000 and v = "PInt 5"
      and p = 5, THEN conjunct1, THEN mp, OF a]
  have r1: "fst (percent_amount (bot ?a) ?a ?sig []) = PFloat 50"
    using tha by (simp add: bot_def round2_def round_half_even_def)
  have b: "fetch_balance ?b [] = Inr \<lparr>free = [''USDT'' \<mapsto> 100]\<rparr>
      \<and> free \<lparr>free = [''USDT'' \<mapsto> 100]\<rparr> ''USDT'' = Some 100
      \<and> ?sig ''percent'' = Some (PInt 5) \<and> py_float (bot ?b) (PInt 5) = Inr 5"
    by (simp add: venue_def bot_def float_of_int_def)
  note thb = percent_of_balance_amount [where ex = "?b" and eng = "bot ?b" and sig = "?sig"
      and tr = "[]" and b = "\<lparr>free = [''USDT'' \<mapsto> 100]\<rparr>" and f = 100 and v = "PInt 5"
      and p = 5, THEN conjunct1, THEN mp, OF b]
  have r2: "fst (percent_amount (bot ?b) ?b ?sig []) = PInt 11"
    using thb by (simp add: bot_def)
  have s: "(\<exists>e. fetch_balance ?a [] = Inl e)
        \<or> (\<exists>b'. fetch_balance ?a [] = Inr b' \<and> free b' ''USDT'' = None)
        \<or> (\<exists>w. ?sigs ''percent'' = Some w
              \<and> (w = PNone \<or> (\<exists>s. w = PStr s \<and> float_of_str (bot ?a) s = None)
                  \<or> (\<exists>i. w = PInt i \<and> int_to_float (bot ?a) i = None)))"
    by (simp add: bot_def)
  note ths = percent_of_balance_amount [where ex = "?a" and eng = "bot ?a" and sig = "?sigs"
      and tr = "[]", THEN conjunct2, THEN conjunct1, THEN mp, OF s]
  have g: "(\<exists>e. fetch_balance ?a [] = Inl e)
        \<or> (\<exists>b'. fetch_balance ?a [] = Inr b' \<and> free b' ''USDT'' = None)
        \<or> (\<exists>w. ?sigb ''percent'' = Some w
              \<and> (w = PNone \<or> (\<exists>s. w = PStr s \<and> float_of_str ?e s = None)
                  \<or> (\<exists>i. w = PInt i \<and> int_to_float ?e i = None)))"
    by (simp add: bot_def)
  note thg = percent_of_balance_amount [where ex = "?a" and eng = "?e" and sig = "?sigb"
      and tr = "[]", THEN conjunct2, THEN conjunct1, THEN mp, OF g]
  have c: "(\<exists>e. fetch_balance ?c [] = Inl e)
        \<or> (\<exists>b'. fetch_balance ?c [] = Inr b' \<and> free b' ''USDT'' = None)
        \<or> (\<exists>w. ?sig ''percent'' = Some w
              \<and> (w = PNone \<or> (\<exists>s. w = PStr s \<and> float_of_str (bot ?c) s = None)
                  \<or> (\<exists>i. w = PInt i \<and> int_to_float (bot ?c) i = None)))"
    by (simp add: venue_def)
  note thc = percent_of_balance_amount [where ex = "?c" and eng = "bot ?c" and sig = "?sig"
      and tr = "[]", THEN conjunct2, THEN conjunct1, THEN mp, OF c]
  have d: "enable_trading (bot ?c)
        \<and> (case ?sig ''exchange'' of None \<Rightarrow> PStr ''binance'' | Some x \<Rightarrow> x) = PStr ''binance''
        \<and> exchanges (bot ?c) (lower ''binance'') = Some ?c
        \<and> (case ?sig ''symbol'' of None \<Rightarrow> PStr ''BTCUSDT'' | Some x \<Rightarrow> x) = PStr ''BTCUSDT''
        \<and> ?sig ''percent'' \<noteq> None \<and> ?sig ''amount'' = None
        \<and> ?sig ''action'' = Some (PStr ''long_entry'')
        \<and> (''long_entry'' = ''long_entry'' \<or> ''long_entry'' = ''short_entry'')"
    by (simp add: bot_def lower_def lower_char_def)
  note thd = percent_of_balance_amount [where ex = "?c" and eng = "bot ?c" and sig = "?sig"
      and tr = "[]" and name = "''binance''" and s = "''BTCUSDT''" and a = "''long_entry''",
      THEN conjunct2, THEN conjunct2, THEN conjunct2, THEN mp, OF d]
  have r3: "execute_signal (bot ?c) ?sig [] =
      execute_entry (bot ?c) ?c Long (PStr ''BTCUSDT'') (?sig(''amount'' \<mapsto> PInt 100)) [FetchBalance]"
    using thd thc by (simp add: lower_def lower_char_def strip_upper_def upper_def upper_char_def)
  have r4: "execute_entry (bot ?c) ?c Long (PStr ''BTCUSDT'') (?sig(''amount'' \<mapsto> PInt 100)) [FetchBalance]
     = (\<lparr>success = True, message = EntryOk Long, order = Some ''B1'',
         signal = [''action'' \<mapsto> PStr ''long_entry'', ''percent'' \<mapsto> PInt 5,
                   ''amount'' \<mapsto> PInt 100],
         details = Some (EntryDetails (PStr ''BTCUSDT'') ''buy'' 10 100 (PInt 10))\<rparr>,
        [FetchBalance, LoadMarkets, FetchPositions [''BTCUSDT''], LoadMarkets,
         FetchPositions [''BTCUSDT''], LoadMarkets, SetLeverage (PInt 10) ''BTCUSDT'',
         FetchTicker ''BTCUSDT'', CreateMarketBuyOrder ''BTCUSDT'' 10 False])"
    by (simp add: eval_defs)
  from r1 r2 ths thg r3 r4 show ?thesis by simp
qed

section \<open>Symbol normalisation\<close>

text \<open>
  C8 as written fails in four places. On an exchange that is not binance no market table
  is consulted: the ticker comes back stripped although it is a key of the table. Every
  occurrence of \<open>.P\<close> is removed, not only a suffix. The ticker \<open>USDT\<close> itself is not
  retried in the unified form. And on a lookup error the stripped ticker is stripped
  once more: \<open>btcusdt.p\<close> is normalised to \<open>BTCUSDT.P\<close>, but to \<open>BTCUSDT\<close> when
  \<open>load_markets\<close> raises.
\<close>

theorem normalize_symbol_deviations:
  "normalize_symbol (venue False [''BTCUSDT'' \<mapsto> \<lparr>market_id = ''BTC-ID''\<rparr>] [] 1000)
       (PStr ''BTCUSDT'') [] = (Inr ''BTCUSDT'', [])
   \<and> normalize_symbol (venue True Map.empty [] 1000) (PStr ''BTC.PUSDT'') []
       = (Inr ''BTCUSDT'', [LoadMarkets])
   \<and> normalize_symbol (venue True [''/USDT:USDT'' \<mapsto> \<lparr>market_id = ''X''\<rparr>] [] 1000)
       (PStr ''USDT'') [] = (Inr ''USDT'', [LoadMarkets])
   \<and> strip_upper ''btcusdt.p'' = ''BTCUSDT.P''
   \<and> normalize_symbol
        ((venue True Map.empty [] 1000)\<lparr>load_markets := (\<lambda>tr. Inl (ExchangeError ''down''))\<rparr>)
        (PStr ''btcusdt.p'') [] = (Inr ''BTCUSDT'', [LoadMarkets])"
  by (simp add: normalize_symbol_def venue_def str_defs)

text \<open>
  C8 (amended). On a string ticker \<open>t\<close> symbol normalisation never raises. Let \<open>s\<close> be
  \<open>t\<close> with every occurrence of \<open>.P\<close> removed and then upper-cased. On an exchange that
  is not binance the result is \<open>s\<close> and no call is made. On binance the market table is
  loaded once: if \<open>s\<close> is a key of it the result is that market's id; otherwise, when \<open>s\<close>
  is longer than four characters and ends in \<open>USDT\<close>, the unified form
  \<open>BASE/USDT:USDT\<close> is looked up and its market's id returned on a hit; with no match
  the result is \<open>s\<close>; and when \<open>load_markets\<close> raises, the result is \<open>s\<close> stripped and
  upper-cased once more.
\<close>

theorem normalize_symbol_chain:
  "(\<exists>r. fst (normalize_symbol ex (PStr t) tr) = Inr r)
   \<and> (\<not> is_binance ex \<longrightarrow> normalize_symbol ex (PStr t) tr = (Inr (strip_upper t), tr))
   \<and> (is_binance ex \<longrightarrow> snd (normalize_symbol ex (PStr t) tr) = tr @ [LoadMarkets])
   \<and> (is_binance ex \<and> load_markets ex tr = Inr ms \<and> ms (strip_upper t) = Some m \<longrightarrow>
        fst (normalize_symbol ex (PStr t) tr) = Inr (market_id m))
   \<and> (is_binance ex \<and> load_markets ex tr = Inr ms \<and> ms (strip_upper t) = None
        \<and> 4 < length (strip_upper t) \<and> endswith (strip_upper t) ''USDT''
        \<and> ms (take (length (strip_upper t) - 4) (strip_upper t) @ ''/USDT:USDT'') = Some m \<longrightarrow>
        fst (normalize_symbol ex (PStr t) tr) = Inr (market_id m))
   \<and> (is_binance ex \<and> load_markets ex tr = Inr ms \<and> ms (strip_upper t) = None
        \<and> (\<not> (4 < length (strip_upper t) \<and> endswith (strip_upper t) ''USDT'')
            \<or> ms (take (length (strip_upper t) - 4) (strip_upper t) @ ''/USDT:USDT'') = None) \<longrightarrow>
        fst (normalize_symbol ex (PStr t) tr) = Inr (strip_upper t))
   \<and> (is_binance ex \<and> load_markets ex tr = Inl e \<longrightarrow>
        fst (normalize_symbol ex (PStr t) tr) = Inr (strip_upper (strip_upper t)))"
proof -
  have 1: "\<exists>r. fst (normalize_symbol ex (PStr t) tr) = Inr r"
    by (simp add: normalize_symbol_def Let_def split: sum.split option.split)
  have 2: "\<not> is_binance ex \<longrightarrow> normalize_symbol ex (PStr t) tr = (Inr (strip_upper t), tr)"
    by (simp add: normalize_symbol_def Let_def)
  have 3: "is_binance ex \<longrightarrow> snd (normalize_symbol ex (PStr t) tr) = tr @ [LoadMarkets]"
    by (simp add: normalize_symbol_def Let_def split: sum.split option.split)
  have 4: "is_binance ex \<and> load_markets ex tr = Inr ms \<and> ms (strip_upper t) = Some m \<longrightarrow>
        fst (normalize_symbol ex (PStr t) tr) = Inr (market_id m)"
    by (simp add: normalize_symbol_def Let_def)
  have 5: "is_binance ex \<and> load_markets ex tr = Inr ms \<and> ms (strip_upper t) = None
        \<and> 4 < length (strip_upper t) \<and> endswith (strip_upper t) ''USDT''
        \<and> ms (take (length (strip_upper t) - 4) (strip_upper t) @ ''/USDT:USDT'') = Some m \<longrightarrow>
        fst (normalize_symbol ex (PStr t) tr) = Inr (market_id m)"
    by (simp add: normalize_symbol_def Let_def)
  have 6: "is_binance ex \<and> load_markets ex tr = Inr ms \<and> ms (strip_upper t) = None
        \<and> (\<not> (4 < length (strip_upper t) \<and> endswith (strip_upper t) ''USDT'')
            \<or> ms (take (length (strip_upper t) - 4) (strip_upper t) @ ''/USDT:USDT'') = None) \<longrightarrow>
        fst (normalize_symbol ex (PStr t) tr) = Inr (strip_upper t)"
    by (auto simp: normalize_symbol_def Let_def)
  have 7: "is_binance ex \<and> load_markets ex tr = Inl e \<longrightarrow>
        fst (normalize_symbol ex (PStr t) tr) = Inr (strip_upper (strip_upper t))"
    by (simp add: normalize_symbol_def Let_def)
  from 1 2 3 4 5 6 7 show ?thesis by blast
qed

text \<open>
  The example of the claim: \<open>GASUSDT.P\<close> resolves to the id of the \<open>GAS/USDT:USDT\<close>
  market when only that market exists, and to \<open>GASUSDT\<close> when nothing matches.
\<close>

theorem normalize_symbol_chain_witness:
  "fst (normalize_symbol
          (venue True [''GAS/USDT:USDT'' \<mapsto> \<lparr>market_id = ''GASUSDT-PERP''\<rparr>] [] 1000)
          (PStr ''GASUSDT.P'') []) = Inr ''GASUSDT-PERP''
   \<and> fst (normalize_symbol (venue True Map.empty [] 1000) (PStr ''GASUSDT.P'') [])
       = Inr ''GASUSDT''"
proof -
  let ?ms = "[''GAS/USDT:USDT'' \<mapsto> \<lparr>market_id = ''GASUSDT-PERP''\<rparr>]"
  let ?a = "venue True ?ms [] 1000"
  let ?b = "venue True Map.empty [] 1000"
  have su: "strip_upper ''GASUSDT.P'' = ''GASUSDT''"
    by (simp add: str_defs)
  have a: "is_binance ?a \<and> load_markets ?a [] = Inr ?ms \<and> ?ms (strip_upper ''GASUSDT.P'') = None
        \<and> 4 < length (strip_upper ''GASUSDT.P'') \<and> endswith (strip_upper ''GASUSDT.P'') ''USDT''
        \<and> ?ms (take (length (strip_upper ''GASUSDT.P'') - 4) (strip_upper ''GASUSDT.P'') @ ''/USDT:USDT'')
            = Some \<lparr>market_id = ''GASUSDT-PERP''\<rparr>"
    by (simp add: su venue_def endswith_def)
  note tha = normalize_symbol_chain [where ex = "?a" and t = "''GASUSDT.P''" and tr = "[]"
      and ms = "?ms" and m = "\<lparr>market_id = ''GASUSDT-PERP''\<rparr>",
      THEN conjunct2, THEN conjunct2, THEN conjunct2, THEN conjunct2, THEN conjunct1, THEN mp, OF a]
  have b: "is_binance ?b \<and> load_markets ?b [] = Inr Map.empty \<and> Map.empty (strip_upper ''GASUSDT.P'') = None
        \<and> (\<not> (4 < length (strip_upper ''GASUSDT.P'') \<and> endswith (strip_upper ''GASUSDT.P'') ''USDT'')
            \<or> Map.empty (take (length (strip_upper ''GASUSDT.P'') - 4) (strip_upper ''GASUSDT.P'') @ ''/USDT:USDT'') = None)"
    by (simp add: venue_def)
  note thb = normalize_symbol_chain [where ex = "?b" and t = "''GASUSDT.P''" and tr = "[]"
      and ms = "Map.empty",
      THEN conjunct2, THEN conjunct2, THEN conjunct2, THEN conjunct2, THEN conjunct2,
      THEN conjunct1, THEN mp, OF b]
  from tha thb su show ?thesis by simp
qed

section \<open>The signal object and the sizing defaults\<close>

text \<open>
  A handler reads three keys of its signal (\<open>percent\<close>, \<open>leverage\<close>, \<open>amount\<close>) and
  echoes the signal; two signals that agree on what is read give the same run.
\<close>

lemma with_signal_failed: "with_signal f (failed m s, tr) = (failed m (f s), tr)"
  by (simp add: with_signal_def failed_def)

lemma execute_exit_cong:
  assumes "sig ''percent'' = sig' ''percent''"
  shows "execute_exit eng ex d symbol sig tr
       = with_signal (\<lambda>s. sig) (execute_exit eng ex d symbol sig' tr)"
proof -
  let ?pv = "case sig' ''percent'' of None \<Rightarrow> PInt 100 | Some v \<Rightarrow> v"
  obtain p tr1 where gp: "get_position ex symbol (side_name d) tr = (p, tr1)"
    by (cases "get_position ex symbol (side_name d) tr")
  obtain r tr2 where ns: "normalize_symbol ex symbol tr1 = (r, tr2)"
    by (cases "normalize_symbol ex symbol tr1")
  show ?thesis
  proof (cases "num_of ?pv")
    case None
    with assms show ?thesis by (simp add: execute_exit_def Let_def with_signal_failed)
  next
    case (Some q)
    note q = this
    show ?thesis
    proof (cases p)
      case None
      with q gp assms show ?thesis
        by (simp add: execute_exit_def Let_def with_signal_failed) (simp add: with_signal_def)
    next
      case (Some pos)
      note pos = this
      show ?thesis
      proof (cases r)
        case (Inl e)
        with q pos gp ns assms show ?thesis
          by (simp add: execute_exit_def Let_def with_signal_failed)
      next
        case (Inr s)
        with q pos gp ns assms show ?thesis
          by (simp add: execute_exit_def Let_def buy_def sell_def with_signal_failed
                split: sum.split)
             (simp add: with_signal_def)
      qed
    qed
  qed
qed

lemma execute_exit_signal: "signal (fst (execute_exit eng ex d symbol sig tr)) = sig"
proof -
  have "execute_exit eng ex d symbol sig tr
       = with_signal (\<lambda>s. sig) (execute_exit eng ex d symbol sig tr)"
    by (rule execute_exit_cong) simp
  then have "signal (fst (execute_exit eng ex d symbol sig tr))
       = signal (fst (with_signal (\<lambda>s. sig) (execute_exit eng ex d symbol sig tr)))"
    by simp
  also have "\<dots> = sig"
    by (cases "execute_exit eng ex d symbol sig tr") (simp add: with_signal_def)
  finally show ?thesis .
qed

lemma entry_order_cong:
  assumes "(case sig ''leverage'' of None \<Rightarrow> default_leverage eng | Some v \<Rightarrow> v)
         = (case sig' ''leverage'' of None \<Rightarrow> default_leverage eng | Some v \<Rightarrow> v)"
    and "(case sig ''amount'' of None \<Rightarrow> PInt 100 | Some v \<Rightarrow> v)
         = (case sig' ''amount'' of None \<Rightarrow> PInt 100 | Some v \<Rightarrow> v)"
  shows "entry_result d sig (entry_order eng ex d symbol sig tr)
       = with_signal (\<lambda>s. sig) (entry_result d sig' (entry_order eng ex d symbol sig' tr))"
proof -
  obtain r tr1 where ns: "normalize_symbol ex symbol tr = (r, tr1)"
    by (cases "normalize_symbol ex symbol tr")
  show ?thesis
  proof (cases r)
    case (Inl e)
    with ns assms show ?thesis
      by (simp add: entry_order_def entry_result_def Let_def with_signal_failed)
  next
    case (Inr s)
    with ns assms show ?thesis
      by (simp add: entry_order_def entry_result_def Let_def buy_def sell_def with_signal_failed
            split: sum.split)
         (simp add: with_signal_def)
  qed
qed

lemma execute_entry_cong:
  assumes "(case sig ''leverage'' of None \<Rightarrow> default_leverage eng | Some v \<Rightarrow> v)
         = (case sig' ''leverage'' of None \<Rightarrow> default_leverage eng | Some v \<Rightarrow> v)"
    and "(case sig ''amount'' of None \<Rightarrow> PInt 100 | Some v \<Rightarrow> v)
         = (case sig' ''amount'' of None \<Rightarrow> PInt 100 | Some v \<Rightarrow> v)"
  shows "execute_entry eng ex d symbol sig tr
       = with_signal (\<lambda>s. sig) (execute_entry eng ex d symbol sig' tr)"
proof -
  note eo = entry_order_cong [OF assms, of d ex symbol]
  obtain lp tr1 where g1: "get_position ex symbol ''long'' tr = (lp, tr1)"
    by (cases "get_position ex symbol ''long'' tr")
  obtain sp tr2 where g2: "get_position ex symbol ''short'' tr1 = (sp, tr2)"
    by (cases "get_position ex symbol ''short'' tr1")
  obtain cr tr3 where x: "execute_exit eng ex (opposite d) symbol [''percent'' \<mapsto> PInt 100] tr2 = (cr, tr3)"
    by (cases "execute_exit eng ex (opposite d) symbol [''percent'' \<mapsto> PInt 100] tr2")
  show ?thesis
    using g1 g2 x eo [of tr2] eo [of tr3]
    by (simp add: execute_entry_def with_signal_failed)
qed

lemma execute_entry_signal: "signal (fst (execute_entry eng ex d symbol sig tr)) = sig"
proof -
  have "execute_entry eng ex d symbol sig tr
       = with_signal (\<lambda>s. sig) (execute_entry eng ex d symbol sig tr)"
    by (rule execute_entry_cong) simp_all
  then have "signal (fst (execute_entry eng ex d symbol sig tr))
       = signal (fst (with_signal (\<lambda>s. sig) (execute_entry eng ex d symbol sig tr)))"
    by simp
  also have "\<dots> = sig"
    by (cases "execute_entry eng ex d symbol sig tr") (simp add: with_signal_def)
  finally show ?thesis .
qed

lemma with_signal_signal:
  "signal (fst out) = s \<Longrightarrow> signal (fst (with_signal f out)) = f s"
  by (cases out) (simp add: with_signal_def)

text \<open>What \<open>execute_signal\<close> returns: an early failure on the signal as received, or
  the result of a handler on the signal after the sizing step.\<close>

lemma execute_signal_signal:
  "signal (fst (execute_signal eng sig tr)) = sig
   \<or> (sig ''percent'' \<noteq> None \<and> sig ''amount'' = None
       \<and> (\<exists>a. signal (fst (execute_signal eng sig tr)) = sig(''amount'' \<mapsto> a)))"
proof (cases "case sig ''exchange'' of None \<Rightarrow> PStr ''binance'' | Some v \<Rightarrow> v")
  case (PStr name)
  note name = this
  let ?sym = "if lower name = ''binance'' then
                (case (case sig ''symbol'' of None \<Rightarrow> PStr ''BTCUSDT'' | Some v \<Rightarrow> v) of
                   PStr s \<Rightarrow> Inr (PStr (strip_upper s)) | _ \<Rightarrow> Inl AttributeError)
              else Inr (case sig ''symbol'' of None \<Rightarrow> PStr ''BTCUSDT'' | Some v \<Rightarrow> v)"
  let ?action = "case sig ''action'' of None \<Rightarrow> PNone | Some v \<Rightarrow> v"
  show ?thesis
  proof (cases ?sym)
    case (Inl e)
    with name show ?thesis by (simp add: execute_signal_def Let_def failed_def)
  next
    case (Inr symbol)
    note symbol = this
    show ?thesis
    proof (cases "enable_trading eng")
      case False
      with name symbol show ?thesis by (simp add: execute_signal_def Let_def failed_def)
    next
      case True
      note en = this
      show ?thesis
      proof (cases "exchanges eng (lower name)")
        case None
        with name symbol en show ?thesis by (simp add: execute_signal_def Let_def failed_def)
      next
        case (Some ex)
        note ex = this
        show ?thesis
        proof (cases "percent_mode sig ?action")
          case (Inl e)
          with name symbol en ex show ?thesis
            by (simp add: execute_signal_def Let_def failed_def)
        next
          case (Inr pm)
          note pm = this
          obtain a t where pa: "percent_amount eng ex sig tr = (a, t)"
            by (cases "percent_amount eng ex sig tr")
          have pmT: "pm \<Longrightarrow> sig ''percent'' \<noteq> None \<and> sig ''amount'' = None"
            using pm by (auto simp: percent_mode_def split: if_splits)
          define sig1 where "sig1 = (if pm then sig(''amount'' \<mapsto> a) else sig)"
          define tr1 where "tr1 = (if pm then t else tr)"
          have st: "(if pm then case percent_amount eng ex sig tr of (a, tr1) \<Rightarrow> (sig(''amount'' \<mapsto> a), tr1)
                     else (sig, tr)) = (sig1, tr1)"
            using pa by (simp add: sig1_def tr1_def)
          have "signal (fst (execute_signal eng sig tr)) = sig1"
            using name symbol en ex pm st
            by (simp add: execute_signal_def Let_def failed_def execute_long_entry_def
                  execute_short_entry_def execute_long_exit_def execute_short_exit_def
                  execute_entry_signal execute_exit_signal)
          then show ?thesis using pmT by (auto simp: sig1_def)
        qed
      qed
    qed
  qed
qed (simp_all add: execute_signal_def Let_def failed_def)

lemma with_signal_eq:
  "signal (fst out) = s0 \<Longrightarrow> f s0 = g s0 \<Longrightarrow> with_signal f out = with_signal g out"
  by (cases out) (simp add: with_signal_def)

lemma execute_entry_default_leverage:
  assumes "s ''leverage'' = None"
  shows "execute_entry eng ex d symbol s tr
       = with_signal (\<lambda>x. x(''leverage'' := None))
           (execute_entry eng ex d symbol (s(''leverage'' \<mapsto> default_leverage eng)) tr)"
proof -
  let ?s' = "s(''leverage'' \<mapsto> default_leverage eng)"
  have "execute_entry eng ex d symbol s tr
       = with_signal (\<lambda>x. s) (execute_entry eng ex d symbol ?s' tr)"
    by (rule execute_entry_cong) (simp_all add: assms)
  also have "\<dots> = with_signal (\<lambda>x. x(''leverage'' := None)) (execute_entry eng ex d symbol ?s' tr)"
    by (rule with_signal_eq [OF execute_entry_signal]) (simp add: assms fun_upd_idem)
  finally show ?thesis .
qed

lemma execute_exit_default_leverage:
  assumes "s ''leverage'' = None"
  shows "execute_exit eng ex d symbol s tr
       = with_signal (\<lambda>x. x(''leverage'' := None))
           (execute_exit eng ex d symbol (s(''leverage'' \<mapsto> default_leverage eng)) tr)"
proof -
  let ?s' = "s(''leverage'' \<mapsto> default_leverage eng)"
  have "execute_exit eng ex d symbol s tr
       = with_signal (\<lambda>x. s) (execute_exit eng ex d symbol ?s' tr)"
    by (rule execute_exit_cong) simp
  also have "\<dots> = with_signal (\<lambda>x. x(''leverage'' := None)) (execute_exit eng ex d symbol ?s' tr)"
    by (rule with_signal_eq [OF execute_exit_signal]) (simp add: assms fun_upd_idem)
  finally show ?thesis .
qed

text \<open>The dispatch of lines 129--142 on two signals whose handlers agree.\<close>

lemma execute_signal_related:
  assumes keys: "sig' ''action'' = sig ''action''" "sig' ''symbol'' = sig ''symbol''"
      "sig' ''exchange'' = sig ''exchange''"
    and pm: "\<And>a. percent_mode sig' a = percent_mode sig a"
    and pa: "\<And>ex. fst (percent_amount eng ex sig' tr) = fst (percent_amount eng ex sig tr)"
    and f0: "f sig' = sig"
    and f1: "\<And>a. sig ''percent'' \<noteq> None \<Longrightarrow> sig ''amount'' = None \<Longrightarrow>
               f (sig'(''amount'' \<mapsto> a)) = sig(''amount'' \<mapsto> a)"
    and en0: "\<And>ex d symbol t. execute_entry eng ex d symbol sig t
               = with_signal f (execute_entry eng ex d symbol sig' t)"
    and ex0: "\<And>ex d symbol t. execute_exit eng ex d symbol sig t
               = with_signal f (execute_exit eng ex d symbol sig' t)"
    and en1: "\<And>ex d symbol t a. sig ''percent'' \<noteq> None \<Longrightarrow> sig ''amount'' = None \<Longrightarrow>
               execute_entry eng ex d symbol (sig(''amount'' \<mapsto> a)) t
               = with_signal f (execute_entry eng ex d symbol (sig'(''amount'' \<mapsto> a)) t)"
    and ex1: "\<And>ex d symbol t a. sig ''percent'' \<noteq> None \<Longrightarrow> sig ''amount'' = None \<Longrightarrow>
               execute_exit eng ex d symbol (sig(''amount'' \<mapsto> a)) t
               = with_signal f (execute_exit eng ex d symbol (sig'(''amount'' \<mapsto> a)) t)"
  shows "execute_signal eng sig tr = with_signal f (execute_signal eng sig' tr)"
proof (cases "case sig ''exchange'' of None \<Rightarrow> PStr ''binance'' | Some v \<Rightarrow> v")
  case (PStr name)
  note name = this
  let ?sym = "if lower name = ''binance'' then
                (case (case sig ''symbol'' of None \<Rightarrow> PStr ''BTCUSDT'' | Some v \<Rightarrow> v) of
                   PStr s \<Rightarrow> Inr (PStr (strip_upper s)) | _ \<Rightarrow> Inl AttributeError)
              else Inr (case sig ''symbol'' of None \<Rightarrow> PStr ''BTCUSDT'' | Some v \<Rightarrow> v)"
  let ?action = "case sig ''action'' of None \<Rightarrow> PNone | Some v \<Rightarrow> v"
  show ?thesis
  proof (cases ?sym)
    case (Inl e)
    with name keys f0 show ?thesis
      by (simp add: execute_signal_def Let_def with_signal_failed)
  next
    case (Inr symbol)
    note symbol = this
    show ?thesis
    proof (cases "enable_trading eng")
      case False
      with name symbol keys f0 show ?thesis
        by (simp add: execute_signal_def Let_def with_signal_failed)
    next
      case True
      note en = this
      show ?thesis
      proof (cases "exchanges eng (lower name)")
        case None
        with name symbol en keys f0 show ?thesis
          by (simp add: execute_signal_def Let_def with_signal_failed)
      next
        case (Some ex)
        note ex = this
        show ?thesis
        proof (cases "percent_mode sig ?action")
          case (Inl e)
          with name symbol en ex keys f0 pm [of ?action] show ?thesis
            by (simp add: execute_signal_def Let_def with_signal_failed)
        next
          case (Inr b)
          note b = this
          obtain a t where pa1: "percent_amount eng ex sig tr = (a, t)"
            by (cases "percent_amount eng ex sig tr")
          have t: "t = tr @ [FetchBalance]"
            using pa1 by (simp add: percent_amount_def)
          have pa2: "percent_amount eng ex sig' tr = (a, t)"
            using pa [of ex] pa1 t by (simp add: percent_amount_def)
          show ?thesis
          proof (cases b)
            case False
            with name symbol en ex keys b pm [of ?action] f0 en0 ex0 show ?thesis
              by (simp add: execute_signal_def Let_def with_signal_failed
                    execute_long_entry_def execute_short_entry_def execute_long_exit_def
                    execute_short_exit_def)
          next
            case True
            with b have shape: "sig ''percent'' \<noteq> None" "sig ''amount'' = None"
              by (auto simp: percent_mode_def split: if_splits)
            from True name symbol en ex keys b pm [of ?action] pa1 pa2
              f1 [OF shape] en1 [OF shape] ex1 [OF shape]
            show ?thesis
              by (simp add: execute_signal_def Let_def with_signal_failed
                    execute_long_entry_def execute_short_entry_def execute_long_exit_def
                    execute_short_exit_def)
          qed
        qed
      qed
    qed
  qed
next
  case PNone
  with keys f0 show ?thesis by (simp add: execute_signal_def Let_def with_signal_failed)
next
  case (PBool x)
  with keys f0 show ?thesis by (simp add: execute_signal_def Let_def with_signal_failed)
next
  case (PInt x)
  with keys f0 show ?thesis by (simp add: execute_signal_def Let_def with_signal_failed)
next
  case (PFloat x)
  with keys f0 show ?thesis by (simp add: execute_signal_def Let_def with_signal_failed)
qed

text \<open>
  C9 as written fails in percent-of-balance mode: the entry signal
  \<open>{"action": "long_entry", "percent": 5}\<close> has no \<open>amount\<close> when it is received, and the
  dict the result echoes (the caller's object) holds \<open>amount = 50\<close>.
\<close>

theorem signal_gains_amount:
  "[''action'' \<mapsto> PStr ''long_entry'', ''percent'' \<mapsto> PInt 5] ''amount'' = None
   \<and> signal (fst (execute_signal (bot (venue True Map.empty [] 1000))
        [''action'' \<mapsto> PStr ''long_entry'', ''percent'' \<mapsto> PInt 5] [])) ''amount''
      = Some (PFloat 50)"
  by (simp add: eval_defs round2_def round_half_even_def)

text \<open>
  C9 (amended). \<open>execute_signal\<close> and its handlers change no key of the signal other than
  \<open>amount\<close>; the signal is left exactly as received unless it has \<open>percent\<close> and lacks
  \<open>amount\<close> (the shape on which percent-of-balance mode stores the computed \<open>amount\<close>);
  the handlers themselves never change the signal they are given, and the signal echoed
  in their result is that signal.
\<close>

theorem signal_frame:
  "(\<forall>k. k \<noteq> ''amount'' \<longrightarrow> signal (fst (execute_signal eng sig tr)) k = sig k)
   \<and> (sig ''percent'' = None \<or> sig ''amount'' \<noteq> None \<longrightarrow>
        signal (fst (execute_signal eng sig tr)) = sig)
   \<and> signal (fst (execute_entry eng ex d symbol sig tr)) = sig
   \<and> signal (fst (execute_exit eng ex d symbol sig tr)) = sig"
proof -
  note s = execute_signal_signal [of eng sig tr]
  have 1: "\<forall>k. k \<noteq> ''amount'' \<longrightarrow> signal (fst (execute_signal eng sig tr)) k = sig k"
    using s by auto
  have 2: "sig ''percent'' = None \<or> sig ''amount'' \<noteq> None \<longrightarrow>
        signal (fst (execute_signal eng sig tr)) = sig"
    using s by auto
  from 1 2 show ?thesis
    by (simp add: execute_entry_signal execute_exit_signal)
qed

theorem signal_frame_witness:
  "signal (fst (execute_signal (bot (venue True Map.empty [] 1000))
        [''action'' \<mapsto> PStr ''long_entry'', ''amount'' \<mapsto> PInt 100] []))
      = [''action'' \<mapsto> PStr ''long_entry'', ''amount'' \<mapsto> PInt 100]
   \<and> signal (fst (execute_signal (bot (venue True Map.empty [] 1000))
        [''action'' \<mapsto> PStr ''long_entry'', ''percent'' \<mapsto> PInt 5] [])) ''percent''
      = Some (PInt 5)"
proof -
  let ?e = "bot (venue True Map.empty [] 1000)"
  let ?s1 = "[''action'' \<mapsto> PStr ''long_entry'', ''amount'' \<mapsto> PInt 100]"
  let ?s2 = "[''action'' \<mapsto> PStr ''long_entry'', ''percent'' \<mapsto> PInt 5]"
  have h1: "?s1 ''percent'' = None \<or> ?s1 ''amount'' \<noteq> None" by simp
  note a = signal_frame [where sig = "?s1" and eng = "?e" and tr = "[]",
      THEN conjunct2, THEN conjunct1, THEN mp, OF h1]
  have h2: "''percent'' \<noteq> ''amount''" by simp
  note b = signal_frame [where sig = "?s2" and eng = "?e" and tr = "[]",
      THEN conjunct1, THEN spec, THEN mp, OF h2]
  from a b show ?thesis by simp
qed

text \<open>An entry signal without \<open>percent\<close> goes to its handler as it is, with no call made.\<close>

lemma execute_signal_entry_plain:
  assumes "enable_trading eng"
    and "(case sig ''exchange'' of None \<Rightarrow> PStr ''binance'' | Some x \<Rightarrow> x) = PStr name"
    and "exchanges eng (lower name) = Some ex"
    and "(case sig ''symbol'' of None \<Rightarrow> PStr ''BTCUSDT'' | Some x \<Rightarrow> x) = PStr s"
    and "sig ''percent'' = None"
    and "sig ''action'' = Some (PStr a)" and "a = ''long_entry'' \<or> a = ''short_entry''"
  shows "execute_signal eng sig tr =
           execute_entry eng ex (if a = ''long_entry'' then Long else Short)
             (PStr (if lower name = ''binance'' then strip_upper s else s)) sig tr"
proof -
  have pm: "percent_mode sig (PStr a) = Inr False"
    using assms(5) by (simp add: percent_mode_def)
  have ex': "lower name = ''binance'' \<longrightarrow> exchanges eng ''binance'' = Some ex"
    using assms(3) by auto
  show ?thesis
  proof (cases "a = ''long_entry''")
    case True
    with assms pm ex' show ?thesis
      by (simp add: execute_signal_def Let_def execute_long_entry_def)
  next
    case False
    with assms(7) have "a = ''short_entry''" by simp
    with assms pm ex' show ?thesis
      by (simp add: execute_signal_def Let_def execute_short_entry_def)
  qed
qed

text \<open>The second half of an entry handler when the price is there and the quantity is
  computed: the order call and the result.\<close>

lemma entry_order_places:
  assumes "normalize_symbol ex symbol tr = (Inr ns, tr1)"
    and "lev = (case sig ''leverage'' of None \<Rightarrow> default_leverage eng | Some v \<Rightarrow> v)"
    and "tr2 = (if is_binance ex then tr1 @ [SetLeverage lev ns] else tr1)"
    and "fetch_ticker ex tr2 ns = Inr t"
    and "entry_quantity eng (case sig ''amount'' of None \<Rightarrow> PInt 100 | Some v \<Rightarrow> v) lev
           (last_price t) = Inr q"
  shows "entry_result d sig (entry_order eng ex d symbol sig tr) =
           (case (if d = Long then create_market_buy_order ex (tr2 @ [FetchTicker ns]) ns q False
                  else create_market_sell_order ex (tr2 @ [FetchTicker ns]) ns q False) of
              Inl e \<Rightarrow> failed (EntryFailed d e) sig
            | Inr ord \<Rightarrow>
                \<lparr>success = True, message = EntryOk d, order = Some ord, signal = sig,
                 details = Some (EntryDetails symbol (if d = Long then ''buy'' else ''sell'')
                                   q (last_price t) lev)\<rparr>,
            tr2 @ [FetchTicker ns,
                   if d = Long then CreateMarketBuyOrder ns q False
                   else CreateMarketSellOrder ns q False])"
proof (cases "is_binance ex")
  case True
  with assms show ?thesis
    by (simp add: entry_order_def entry_result_def Let_def buy_def sell_def split: sum.split)
next
  case False
  with assms show ?thesis
    by (simp add: entry_order_def entry_result_def Let_def buy_def sell_def split: sum.split)
qed

lemma default_quantity_int:
  assumes "int_of lev = Some L" and "int_to_float eng (100 * L) = Some x" and "price \<noteq> 0"
  shows "entry_quantity eng (PInt 100) lev price = Inr (fl eng (x / price))"
  using assms by (cases lev) (auto simp: entry_quantity_def float_of_int_def)

lemma default_quantity_float:
  assumes "int_to_float eng 100 = Some x" and "price \<noteq> 0"
  shows "entry_quantity eng (PInt 100) (PFloat l) price = Inr (fl eng (fl eng (x * l) / price))"
  using assms by (simp add: entry_quantity_def float_of_int_def)

text \<open>
  C10. A signal with neither \<open>amount\<close> nor \<open>percent\<close> is processed exactly as the same
  signal with \<open>amount = 100\<close>: same calls on the venue, same result (the echoed signal
  apart, which stays as received); so it is not rejected for the missing size. A signal
  without \<open>leverage\<close> is processed exactly as the same signal carrying the configured
  default leverage. And such an entry signal does place its order: with trading enabled,
  the exchange connected, no position open on either side and a price \<open>P\<close> that is
  not zero, \<open>execute_signal\<close> sets the leverage \<open>L\<close> (the signal's, or the configured
  default when the signal carries none), fetches the price and calls
  \<open>create_market_buy_order\<close> (\<open>create_market_sell_order\<close> for a short entry) with the
  quantity \<open>(100 * L) / P\<close>; the result is the success with that quantity, price and
  leverage when the venue accepts the order.
\<close>

theorem default_amount_and_leverage:
  "(sig ''amount'' = None \<and> sig ''percent'' = None \<longrightarrow>
      execute_signal eng sig tr
        = with_signal (\<lambda>s. sig) (execute_signal eng (sig(''amount'' \<mapsto> PInt 100)) tr))
   \<and> (sig ''leverage'' = None \<longrightarrow>
      execute_signal eng sig tr
        = with_signal (\<lambda>s. s(''leverage'' := None))
            (execute_signal eng (sig(''leverage'' \<mapsto> default_leverage eng)) tr))
   \<and> (enable_trading eng
        \<and> (case sig ''exchange'' of None \<Rightarrow> PStr ''binance'' | Some x \<Rightarrow> x) = PStr name
        \<and> exchanges eng (lower name) = Some ex
        \<and> (case sig ''symbol'' of None \<Rightarrow> PStr ''BTCUSDT'' | Some x \<Rightarrow> x) = PStr s
        \<and> symbol = PStr (if lower name = ''binance'' then strip_upper s else s)
        \<and> sig ''amount'' = None \<and> sig ''percent'' = None
        \<and> sig ''action'' = Some (PStr a) \<and> (a = ''long_entry'' \<or> a = ''short_entry'')
        \<and> lev = (case sig ''leverage'' of None \<Rightarrow> default_leverage eng | Some v \<Rightarrow> v)
        \<and> get_position ex symbol ''long'' tr = (None, tr1)
        \<and> get_position ex symbol ''short'' tr1 = (None, tr2)
        \<and> normalize_symbol ex symbol tr2 = (Inr ns, tr3)
        \<and> tr4 = (if is_binance ex then tr3 @ [SetLeverage lev ns] else tr3)
        \<and> fetch_ticker ex tr4 ns = Inr t \<and> last_price t \<noteq> 0
        \<and> ((\<exists>L x. int_of lev = Some L \<and> int_to_float eng (100 * L) = Some x
                   \<and> q = fl eng (x / last_price t))
            \<or> (\<exists>l x. lev = PFloat l \<and> int_to_float eng 100 = Some x
                   \<and> q = fl eng (fl eng (x * l) / last_price t))) \<longrightarrow>
      execute_signal eng sig tr =
        (case (if a = ''long_entry''
               then create_market_buy_order ex (tr4 @ [FetchTicker ns]) ns q False
               else create_market_sell_order ex (tr4 @ [FetchTicker ns]) ns q False) of
           Inl e \<Rightarrow> failed (EntryFailed (if a = ''long_entry'' then Long else Short) e) sig
         | Inr ord \<Rightarrow>
             \<lparr>success = True, message = EntryOk (if a = ''long_entry'' then Long else Short),
              order = Some ord, signal = sig,
              details = Some (EntryDetails symbol (if a = ''long_entry'' then ''buy'' else ''sell'')
                                q (last_price t) lev)\<rparr>,
         tr4 @ [FetchTicker ns,
                if a = ''long_entry'' then CreateMarketBuyOrder ns q False
                else CreateMarketSellOrder ns q False]))"
proof -
  have eqs: "(sig ''amount'' = None \<and> sig ''percent'' = None \<longrightarrow>
      execute_signal eng sig tr
        = with_signal (\<lambda>s. sig) (execute_signal eng (sig(''amount'' \<mapsto> PInt 100)) tr))
   \<and> (sig ''leverage'' = None \<longrightarrow>
      execute_signal eng sig tr
        = with_signal (\<lambda>s. s(''leverage'' := None))
            (execute_signal eng (sig(''leverage'' \<mapsto> default_leverage eng)) tr))"
  proof (intro conjI impI)
    assume h: "sig ''amount'' = None \<and> sig ''percent'' = None"
    let ?sig' = "sig(''amount'' \<mapsto> PInt 100)"
    show "execute_signal eng sig tr = with_signal (\<lambda>s. sig) (execute_signal eng ?sig' tr)"
    proof (rule execute_signal_related)
      show "\<And>a. percent_mode ?sig' a = percent_mode sig a"
        using h by (simp add: percent_mode_def)
      show "\<And>ex. fst (percent_amount eng ex ?sig' tr) = fst (percent_amount eng ex sig tr)"
        by (simp add: percent_amount_def cong: sum.case_cong option.case_cong)
      show "\<And>ex d symbol t. execute_entry eng ex d symbol sig t
              = with_signal (\<lambda>s. sig) (execute_entry eng ex d symbol ?sig' t)"
        by (rule execute_entry_cong) (simp_all add: h)
      show "\<And>ex d symbol t. execute_exit eng ex d symbol sig t
              = with_signal (\<lambda>s. sig) (execute_exit eng ex d symbol ?sig' t)"
        by (rule execute_exit_cong) simp
    qed (simp_all add: h)
  next
    assume h: "sig ''leverage'' = None"
    let ?sig' = "sig(''leverage'' \<mapsto> default_leverage eng)"
    let ?f = "\<lambda>s::signal. s(''leverage'' := None)"
    have tw: "\<And>a. ?sig'(''amount'' \<mapsto> a) = (sig(''amount'' \<mapsto> a))(''leverage'' \<mapsto> default_leverage eng)"
      by (simp add: fun_upd_twist)
    have l1: "\<And>a. (sig(''amount'' \<mapsto> a)) ''leverage'' = None"
      using h by simp
    show "execute_signal eng sig tr = with_signal ?f (execute_signal eng ?sig' tr)"
    proof (rule execute_signal_related)
      show "\<And>a. percent_mode ?sig' a = percent_mode sig a"
        by (simp add: percent_mode_def)
      show "\<And>ex. fst (percent_amount eng ex ?sig' tr) = fst (percent_amount eng ex sig tr)"
        by (simp add: percent_amount_def cong: sum.case_cong option.case_cong)
      show "?f ?sig' = sig"
        using h by (simp add: fun_upd_idem)
      show "\<And>a. ?f (?sig'(''amount'' \<mapsto> a)) = sig(''amount'' \<mapsto> a)"
        unfolding tw using l1 by (simp add: fun_upd_idem)
      show "\<And>ex d symbol t. execute_entry eng ex d symbol sig t
              = with_signal ?f (execute_entry eng ex d symbol ?sig' t)"
        using h by (rule execute_entry_default_leverage)
      show "\<And>ex d symbol t. execute_exit eng ex d symbol sig t
              = with_signal ?f (execute_exit eng ex d symbol ?sig' t)"
        using h by (rule execute_exit_default_leverage)
      show "\<And>ex d symbol t a. execute_entry eng ex d symbol (sig(''amount'' \<mapsto> a)) t
              = with_signal ?f (execute_entry eng ex d symbol (?sig'(''amount'' \<mapsto> a)) t)"
        unfolding tw using l1 by (rule execute_entry_default_leverage)
      show "\<And>ex d symbol t a. execute_exit eng ex d symbol (sig(''amount'' \<mapsto> a)) t
              = with_signal ?f (execute_exit eng ex d symbol (?sig'(''amount'' \<mapsto> a)) t)"
        unfolding tw using l1 by (rule execute_exit_default_leverage)
    qed simp_all
  qed
  have place: "enable_trading eng
        \<and> (case sig ''exchange'' of None \<Rightarrow> PStr ''binance'' | Some x \<Rightarrow> x) = PStr name
        \<and> exchanges eng (lower name) = Some ex
        \<and> (case sig ''symbol'' of None \<Rightarrow> PStr ''BTCUSDT'' | Some x \<Rightarrow> x) = PStr s
        \<and> symbol = PStr (if lower name = ''binance'' then strip_upper s else s)
        \<and> sig ''amount'' = None \<and> sig ''percent'' = None
        \<and> sig ''action'' = Some (PStr a) \<and> (a = ''long_entry'' \<or> a = ''short_entry'')
        \<and> lev = (case sig ''leverage'' of None \<Rightarrow> default_leverage eng | Some v \<Rightarrow> v)
        \<and> get_position ex symbol ''long'' tr = (None, tr1)
        \<and> get_position ex symbol ''short'' tr1 = (None, tr2)
        \<and> normalize_symbol ex symbol tr2 = (Inr ns, tr3)
        \<and> tr4 = (if is_binance ex then tr3 @ [SetLeverage lev ns] else tr3)
        \<and> fetch_ticker ex tr4 ns = Inr t \<and> last_price t \<noteq> 0
        \<and> ((\<exists>L x. int_of lev = Some L \<and> int_to_float eng (100 * L) = Some x
                   \<and> q = fl eng (x / last_price t))
            \<or> (\<exists>l x. lev = PFloat l \<and> int_to_float eng 100 = Some x
                   \<and> q = fl eng (fl eng (x * l) / last_price t))) \<longrightarrow>
      execute_signal eng sig tr =
        (case (if a = ''long_entry''
               then create_market_buy_order ex (tr4 @ [FetchTicker ns]) ns q False
               else create_market_sell_order ex (tr4 @ [FetchTicker ns]) ns q False) of
           Inl e \<Rightarrow> failed (EntryFailed (if a = ''long_entry'' then Long else Short) e) sig
         | Inr ord \<Rightarrow>
             \<lparr>success = True, message = EntryOk (if a = ''long_entry'' then Long else Short),
              order = Some ord, signal = sig,
              details = Some (EntryDetails symbol (if a = ''long_entry'' then ''buy'' else ''sell'')
                                q (last_price t) lev)\<rparr>,
         tr4 @ [FetchTicker ns,
                if a = ''long_entry'' then CreateMarketBuyOrder ns q False
                else CreateMarketSellOrder ns q False])"
  proof (intro impI, elim conjE)
    assume h: "enable_trading eng"
      "(case sig ''exchange'' of None \<Rightarrow> PStr ''binance'' | Some x \<Rightarrow> x) = PStr name"
      "exchanges eng (lower name) = Some ex"
      "(case sig ''symbol'' of None \<Rightarrow> PStr ''BTCUSDT'' | Some x \<Rightarrow> x) = PStr s"
      "sig ''percent'' = None"
      "sig ''action'' = Some (PStr a)" "a = ''long_entry'' \<or> a = ''short_entry''"
    assume sym: "symbol = PStr (if lower name = ''binance'' then strip_upper s else s)"
    assume am: "sig ''amount'' = None"
    assume lev: "lev = (case sig ''leverage'' of None \<Rightarrow> default_leverage eng | Some v \<Rightarrow> v)"
    assume g1: "get_position ex symbol ''long'' tr = (None, tr1)"
    assume g2: "get_position ex symbol ''short'' tr1 = (None, tr2)"
    assume ns: "normalize_symbol ex symbol tr2 = (Inr ns, tr3)"
    assume tr4: "tr4 = (if is_binance ex then tr3 @ [SetLeverage lev ns] else tr3)"
    assume tk: "fetch_ticker ex tr4 ns = Inr t" and pr: "last_price t \<noteq> 0"
    assume qq: "(\<exists>L x. int_of lev = Some L \<and> int_to_float eng (100 * L) = Some x
                   \<and> q = fl eng (x / last_price t))
            \<or> (\<exists>l x. lev = PFloat l \<and> int_to_float eng 100 = Some x
                   \<and> q = fl eng (fl eng (x * l) / last_price t))"
    let ?d = "if a = ''long_entry'' then Long else Short"
    have q: "entry_quantity eng (PInt 100) lev (last_price t) = Inr q"
      using qq pr default_quantity_int [of lev _ eng _ "last_price t"]
        default_quantity_float [of eng _ "last_price t"] by auto
    then have q': "entry_quantity eng (case sig ''amount'' of None \<Rightarrow> PInt 100 | Some v \<Rightarrow> v)
        lev (last_price t) = Inr q"
      using am by simp
    have 1: "execute_signal eng sig tr = execute_entry eng ex ?d symbol sig tr"
      unfolding sym using h by (rule execute_signal_entry_plain)
    have 2: "execute_entry eng ex ?d symbol sig tr
        = entry_result ?d sig (entry_order eng ex ?d symbol sig tr2)"
      using g1 g2 by (simp add: execute_entry_def)
    note 3 = entry_order_places [OF ns lev tr4 tk q', of ?d]
    show "execute_signal eng sig tr =
        (case (if a = ''long_entry''
               then create_market_buy_order ex (tr4 @ [FetchTicker ns]) ns q False
               else create_market_sell_order ex (tr4 @ [FetchTicker ns]) ns q False) of
           Inl e \<Rightarrow> failed (EntryFailed (if a = ''long_entry'' then Long else Short) e) sig
         | Inr ord \<Rightarrow>
             \<lparr>success = True, message = EntryOk (if a = ''long_entry'' then Long else Short),
              order = Some ord, signal = sig,
              details = Some (EntryDetails symbol (if a = ''long_entry'' then ''buy'' else ''sell'')
                                q (last_price t) lev)\<rparr>,
         tr4 @ [FetchTicker ns,
                if a = ''long_entry'' then CreateMarketBuyOrder ns q False
                else CreateMarketSellOrder ns q False])"
      unfolding 1 2 3 using h(7) by auto
  qed
  from eqs place show ?thesis by blast
qed

text \<open>
  A short entry carrying only its action, on an engine whose default leverage is 20 and a
  venue whose price is 100: the leverage set is 20 and the sell order has quantity
  \<open>100 * 20 / 100 = 20\<close>; and the run is that of the signal with amount 100 and
  leverage 20 written out.
\<close>

theorem default_amount_and_leverage_witness:
  "execute_signal ((bot (venue True Map.empty [] 1000))\<lparr>default_leverage := PInt 20\<rparr>)
       [''action'' \<mapsto> PStr ''short_entry''] []
     = (\<lparr>success = True, message = EntryOk Short, order = Some ''S1'',
         signal = [''action'' \<mapsto> PStr ''short_entry''],
         details = Some (EntryDetails (PStr ''BTCUSDT'') ''sell'' 20 100 (PInt 20))\<rparr>,
        [LoadMarkets, FetchPositions [''BTCUSDT''], LoadMarkets, FetchPositions [''BTCUSDT''],
         LoadMarkets, SetLeverage (PInt 20) ''BTCUSDT'', FetchTicker ''BTCUSDT'',
         CreateMarketSellOrder ''BTCUSDT'' 20 False])
   \<and> execute_signal ((bot (venue True Map.empty [] 1000))\<lparr>default_leverage := PInt 20\<rparr>)
       [''action'' \<mapsto> PStr ''short_entry'']  []
     = with_signal (\<lambda>s. [''action'' \<mapsto> PStr ''short_entry''])
         (execute_signal ((bot (venue True Map.empty [] 1000))\<lparr>default_leverage := PInt 20\<rparr>)
            [''action'' \<mapsto> PStr ''short_entry'', ''amount'' \<mapsto> PInt 100,
             ''leverage'' \<mapsto> PInt 20] [])"
proof -
  let ?v = "venue True Map.empty [] 1000"
  let ?e = "(bot ?v)\<lparr>default_leverage := PInt 20\<rparr>"
  let ?s = "[''action'' \<mapsto> PStr ''short_entry'']"
  let ?t2 = "[LoadMarkets, FetchPositions [''BTCUSDT''], LoadMarkets, FetchPositions [''BTCUSDT'']]"
  have h1: "?s ''amount'' = None \<and> ?s ''percent'' = None" by simp
  note a = default_amount_and_leverage [where sig = "?s" and eng = "?e" and tr = "[]",
      THEN conjunct1, THEN mp, OF h1]
  have h2: "(?s(''amount'' \<mapsto> PInt 100)) ''leverage'' = None" by simp
  note b = default_amount_and_leverage [where sig = "?s(''amount'' \<mapsto> PInt 100)" and eng = "?e"
      and tr = "[]", THEN conjunct2, THEN conjunct1, THEN mp, OF h2]
  have dl: "default_leverage ?e = PInt 20" by (simp add: bot_def)
  have r2: "execute_signal ?e ?s [] = with_signal (\<lambda>s. ?s)
      (execute_signal ?e (?s(''amount'' \<mapsto> PInt 100, ''leverage'' \<mapsto> PInt 20)) [])"
    unfolding a b dl
    by (cases "execute_signal ?e (?s(''amount'' \<mapsto> PInt 100, ''leverage'' \<mapsto> PInt 20)) []")
       (simp add: with_signal_def)
  have h3: "enable_trading ?e
        \<and> (case ?s ''exchange'' of None \<Rightarrow> PStr ''binance'' | Some x \<Rightarrow> x) = PStr ''binance''
        \<and> exchanges ?e (lower ''binance'') = Some ?v
        \<and> (case ?s ''symbol'' of None \<Rightarrow> PStr ''BTCUSDT'' | Some x \<Rightarrow> x) = PStr ''BTCUSDT''
        \<and> PStr ''BTCUSDT'' = PStr (if lower ''binance'' = ''binance'' then strip_upper ''BTCUSDT'' else ''BTCUSDT'')
        \<and> ?s ''amount'' = None \<and> ?s ''percent'' = None
        \<and> ?s ''action'' = Some (PStr ''short_entry'')
        \<and> (''short_entry'' = ''long_entry'' \<or> ''short_entry'' = ''short_entry'')
        \<and> PInt 20 = (case ?s ''leverage'' of None \<Rightarrow> default_leverage ?e | Some v \<Rightarrow> v)
        \<and> get_position ?v (PStr ''BTCUSDT'') ''long'' [] = (None, [LoadMarkets, FetchPositions [''BTCUSDT'']])
        \<and> get_position ?v (PStr ''BTCUSDT'') ''short'' [LoadMarkets, FetchPositions [''BTCUSDT'']] = (None, ?t2)
        \<and> normalize_symbol ?v (PStr ''BTCUSDT'') ?t2 = (Inr ''BTCUSDT'', ?t2 @ [LoadMarkets])
        \<and> ?t2 @ [LoadMarkets, SetLeverage (PInt 20) ''BTCUSDT'']
            = (if is_binance ?v then (?t2 @ [LoadMarkets]) @ [SetLeverage (PInt 20) ''BTCUSDT'']
               else ?t2 @ [LoadMarkets])
        \<and> fetch_ticker ?v (?t2 @ [LoadMarkets, SetLeverage (PInt 20) ''BTCUSDT'']) ''BTCUSDT''
            = Inr \<lparr>last_price = 100\<rparr>
        \<and> last_price \<lparr>last_price = 100\<rparr> \<noteq> 0
        \<and> ((\<exists>L x. int_of (PInt 20) = Some L \<and> int_to_float ?e (100 * L) = Some x
                   \<and> (20::rat) = fl ?e (x / last_price \<lparr>last_price = 100\<rparr>))
            \<or> (\<exists>l x. PInt 20 = PFloat l \<and> int_to_float ?e 100 = Some x
                   \<and> (20::rat) = fl ?e (fl ?e (x * l) / last_price \<lparr>last_price = 100\<rparr>)))"
    by (simp add: eval_defs)
  note c = default_amount_and_leverage [where sig = "?s" and eng = "?e" and tr = "[]"
      and name = "''binance''" and ex = "?v" and s = "''BTCUSDT''" and symbol = "PStr ''BTCUSDT''"
      and a = "''short_entry''" and lev = "PInt 20"
      and ?tr1.0 = "[LoadMarkets, FetchPositions [''BTCUSDT'']]" and ?tr2.0 = "?t2"
      and ns = "''BTCUSDT''" and ?tr3.0 = "?t2 @ [LoadMarkets]"
      and ?tr4.0 = "?t2 @ [LoadMarkets, SetLeverage (PInt 20) ''BTCUSDT'']"
      and t = "\<lparr>last_price = 100\<rparr>" and q = 20,
      THEN conjunct2, THEN conjunct2, THEN mp, OF h3]
  have r1: "execute_signal ?e ?s []
     = (\<lparr>success = True, message = EntryOk Short, order = Some ''S1'', signal = ?s,
         details = Some (EntryDetails (PStr ''BTCUSDT'') ''sell'' 20 100 (PInt 20))\<rparr>,
        [LoadMarkets, FetchPositions [''BTCUSDT''], LoadMarkets, FetchPositions [''BTCUSDT''],
         LoadMarkets, SetLeverage (PInt 20) ''BTCUSDT'', FetchTicker ''BTCUSDT'',
         CreateMarketSellOrder ''BTCUSDT'' 20 False])"
    unfolding c by (simp add: venue_def)
  from r1 r2 show ?thesis by simp
qed

end
